theory Spec2Isabelle
  imports Main
begin

section \<open>Model registry\<close>

text \<open>
  \<^verbatim>\<open>class ASRModel(str, Enum)\<close> and the table \<^verbatim>\<open>MODEL_CONFIG\<close> of \<^verbatim>\<open>main.py\<close>.
  The table has one row for each member of the enumeration, so the lookups
  \<^verbatim>\<open>MODEL_CONFIG[model]["repo"]\<close> and \<^verbatim>\<open>MODEL_CONFIG[model]["language"]\<close> never raise.
\<close>

datatype ASRModel = TYPHOON_ISAN_WHISPER | MONSOON_WHISPER_MEDIUM

fun model_value :: "ASRModel \<Rightarrow> string" where
  "model_value TYPHOON_ISAN_WHISPER = ''typhoon-isan-asr-whisper''"
| "model_value MONSOON_WHISPER_MEDIUM = ''monsoon-whisper-medium-gigaspeech2''"

record model_descriptor =
  cfg_repo :: string
  cfg_description :: string
  cfg_language :: string

fun MODEL_CONFIG :: "ASRModel \<Rightarrow> model_descriptor" where
  "MODEL_CONFIG TYPHOON_ISAN_WHISPER =
     \<lparr>cfg_repo = ''scb10x/typhoon-isan-asr-whisper'',
      cfg_description = ''Whisper model optimized for Isan dialect (highest accuracy, CER: 8.85%)'',
      cfg_language = ''th-isan''\<rparr>"
| "MODEL_CONFIG MONSOON_WHISPER_MEDIUM =
     \<lparr>cfg_repo = ''scb10x/monsoon-whisper-medium-gigaspeech2'',
      cfg_description = ''Whisper model for standard Thai language (0.8B parameters)'',
      cfg_language = ''th''\<rparr>"

section \<open>Values, collaborators and the state of the process\<close>

text \<open>
  What the inference call may return, and what a batch entry may hold: a Python value.
  \<^verbatim>\<open>isinstance(result, dict)\<close> is the constructor \<open>PDict\<close>, \<^verbatim>\<open>isinstance(result, str)\<close>
  is \<open>PStr\<close>; a dictionary is an association list read with \<open>map_of\<close>.
\<close>

datatype pyval =
    PNone
  | PInt int
  | PStr string
  | PList "pyval list"
  | PDict "(string \<times> pyval) list"

datatype torch_dtype = float16 | float32

text \<open>The keyword arguments of the call \<^verbatim>\<open>pipeline(...)\<close> in \<^verbatim>\<open>get_or_load_model\<close>.\<close>

record pipeline_args =
  pl_task :: string
  pl_model :: string
  pl_device :: int
  pl_torch_dtype :: torch_dtype
  pl_chunk_length_s :: nat
  pl_return_timestamps :: bool

text \<open>
  The calls the service makes on its collaborators, in the order it makes them: building
  a handle, reading an upload, creating a temporary file, invoking a handle on a path,
  and calling \<^verbatim>\<open>os.unlink\<close> on a path. Handles and paths are natural numbers: a handle
  is opaque, and the name of a temporary file is chosen by \<^verbatim>\<open>tempfile\<close>, never from the
  name the client sent.
\<close>

datatype event =
    Build pipeline_args
  | Read string
  | Create nat
  | Invoke nat nat
  | Unlink nat

text \<open>
  The collaborators. Each operation that may raise returns the text \<^verbatim>\<open>str(e)\<close> of its
  exception instead: \<open>pipeline\<close> is the engine's construction, \<open>asr_call\<close> the call of
  a handle on a staged path (holding the given bytes), \<open>tmp_create_error\<close> and
  \<open>tmp_write_error\<close> say whether \<^verbatim>\<open>NamedTemporaryFile\<close> and \<^verbatim>\<open>write\<close> raise,
  \<open>unlink_error\<close> whether \<^verbatim>\<open>os.unlink\<close> raises. \<open>py_str\<close> is Python's \<^verbatim>\<open>str\<close>;
  \<open>text_error\<close> is the message of the exception that slicing a value that is not a
  string, or giving it to the response schema as its \<^verbatim>\<open>text: str\<close>, raises.
\<close>

record env =
  cuda_is_available :: bool
  pipeline :: "pipeline_args \<Rightarrow> string + nat"
  tmp_create_error :: "nat \<Rightarrow> string option"
  tmp_write_error :: "nat \<Rightarrow> string \<Rightarrow> string option"
  asr_call :: "nat \<Rightarrow> nat \<Rightarrow> string \<Rightarrow> string + pyval"
  unlink_error :: "nat \<Rightarrow> string option"
  py_str :: "pyval \<Rightarrow> string"
  text_error :: "pyval \<Rightarrow> string"

text \<open>
  The state: the module-level dictionary \<^verbatim>\<open>loaded_models\<close>, the temporary files on
  storage (path and content), and the calls made so far.
\<close>

record world =
  loaded_models :: "ASRModel \<rightharpoonup> nat"
  files :: "(nat \<times> string) list"
  trace :: "event list"

text \<open>An upload: its name, and what \<^verbatim>\<open>await file.read()\<close> gives (\<open>Inl\<close> when it raises).\<close>

record upload =
  filename :: string
  read_result :: "string + string"

datatype exn =
    HTTPException nat string
  | UnboundLocalError

record TranscriptionResponse =
  resp_text :: string
  resp_model :: string
  resp_language :: "string option"
  resp_confidence :: "int option"
  resp_status :: string

record batch_report =
  rep_results :: "(string \<times> pyval) list list"
  rep_total :: nat
  rep_model :: string
  rep_status :: string

definition record_event :: "event \<Rightarrow> world \<Rightarrow> world" where
  "record_event e w = w\<lparr>trace := trace w @ [e]\<rparr>"

section \<open>The model cache\<close>

definition pipeline_args_for :: "env \<Rightarrow> ASRModel \<Rightarrow> pipeline_args" where
  "pipeline_args_for en model_name =
     (let device = (if cuda_is_available en then ''cuda'' else ''cpu'');
          model_repo = cfg_repo (MODEL_CONFIG model_name)
      in \<lparr>pl_task = ''automatic-speech-recognition'',
          pl_model = model_repo,
          pl_device = (if device = ''cuda'' then 0 else - 1),
          pl_torch_dtype = (if device = ''cuda'' then float16 else float32),
          pl_chunk_length_s = 30,
          pl_return_timestamps = True\<rparr>)"

text \<open>
  \<^verbatim>\<open>get_or_load_model\<close>: a cached handle is returned as it is; otherwise the engine builds
  one, which is stored, or the failure is raised again as \<^verbatim>\<open>HTTPException(500)\<close>.
\<close>

definition get_or_load_model :: "env \<Rightarrow> ASRModel \<Rightarrow> world \<Rightarrow> (exn + nat) \<times> world" where
  "get_or_load_model en model_name w =
     (case loaded_models w model_name of
        Some h \<Rightarrow> (Inr h, w)
      | None \<Rightarrow>
          (let args = pipeline_args_for en model_name;
               w1 = record_event (Build args) w
           in case pipeline en args of
                Inl msg \<Rightarrow> (Inl (HTTPException 500 (''Failed to load model: '' @ msg)), w1)
              | Inr h \<Rightarrow> (Inr h, w1\<lparr>loaded_models := (loaded_models w1)(model_name \<mapsto> h)\<rparr>)))"

section \<open>Validation, staging and normalization\<close>

definition lower_char :: "char \<Rightarrow> char" where
  "lower_char c =
     (case map_of (zip ''ABCDEFGHIJKLMNOPQRSTUVWXYZ'' ''abcdefghijklmnopqrstuvwxyz'') c of
        Some d \<Rightarrow> d
      | None \<Rightarrow> c)"

definition endswith :: "string \<Rightarrow> string \<Rightarrow> bool" where
  "endswith s suf = (length suf \<le> length s \<and> drop (length s - length suf) s = suf)"

text \<open>\<^verbatim>\<open>file.filename.lower().endswith('.wav')\<close>\<close>

definition is_wav :: "upload \<Rightarrow> bool" where
  "is_wav file = endswith (map lower_char (filename file)) ''.wav''"

text \<open>The name \<^verbatim>\<open>NamedTemporaryFile\<close> picks: one that no file on storage has.\<close>

definition fresh_path :: "(nat \<times> string) list \<Rightarrow> nat" where
  "fresh_path fs = Suc (fold max (map fst fs) 0)"

definition path_exists :: "nat \<Rightarrow> world \<Rightarrow> bool" where
  "path_exists p w = (p \<in> set (map fst (files w)))"

text \<open>
  What the function's locals hold when its \<^verbatim>\<open>finally\<close> runs: \<^verbatim>\<open>temp_file\<close> still
  \<^verbatim>\<open>None\<close>; \<^verbatim>\<open>temp_file\<close> bound and \<^verbatim>\<open>temp_file_path\<close> not yet assigned (the write raised);
  or both bound.
\<close>

datatype temp_locals = NoTemp | TempNoPath | TempPath nat

text \<open>
  Lines 145 to 150 (and 224 to 228): read the upload, create the temporary file (kept on
  storage when closed, \<^verbatim>\<open>delete=False\<close>), write the content, take the path. A write
  that raises leaves the file on storage; nothing is known of what it holds, the model
  keeps it empty.
\<close>

definition read_and_stage ::
  "env \<Rightarrow> upload \<Rightarrow> world \<Rightarrow> (string + nat \<times> string) \<times> temp_locals \<times> world" where
  "read_and_stage en file w =
     (let w1 = record_event (Read (filename file)) w
      in case read_result file of
           Inl msg \<Rightarrow> (Inl msg, NoTemp, w1)
         | Inr content \<Rightarrow>
             (let p = fresh_path (files w1)
              in case tmp_create_error en p of
                   Some msg \<Rightarrow> (Inl msg, NoTemp, w1)
                 | None \<Rightarrow>
                     (let w2 = record_event (Create p) (w1\<lparr>files := (p, []) # files w1\<rparr>)
                      in case tmp_write_error en p content of
                           Some msg \<Rightarrow> (Inl msg, TempNoPath, w2)
                         | None \<Rightarrow>
                             (Inr (p, content), TempPath p,
                              w2\<lparr>files := (p, content) # filter (\<lambda>(q, c). q \<noteq> p) (files w2)\<rparr>))))"

text \<open>\<^verbatim>\<open>os.unlink(path)\<close>: the call is recorded; the file is gone unless the call raises.\<close>

definition os_unlink :: "env \<Rightarrow> nat \<Rightarrow> world \<Rightarrow> (string + unit) \<times> world" where
  "os_unlink en p w =
     (let w1 = record_event (Unlink p) w
      in case unlink_error en p of
           Some msg \<Rightarrow> (Inl msg, w1)
         | None \<Rightarrow> (Inr (), w1\<lparr>files := filter (\<lambda>(q, c). q \<noteq> p) (files w1)\<rparr>))"

text \<open>
  Lines 158 to 163 (and 234 to 239): \<^verbatim>\<open>result.get("text", "")\<close> of a dictionary, a string
  as it is, \<^verbatim>\<open>str(result)\<close> of anything else.
\<close>

definition normalize_result :: "env \<Rightarrow> pyval \<Rightarrow> pyval" where
  "normalize_result en result =
     (case result of
        PDict d \<Rightarrow> (case map_of d ''text'' of Some v \<Rightarrow> v | None \<Rightarrow> PStr [])
      | PStr s \<Rightarrow> PStr s
      | _ \<Rightarrow> PStr (py_str en result))"

section \<open>The single-file endpoint\<close>

text \<open>
  The body of the \<^verbatim>\<open>try\<close> of \<^verbatim>\<open>transcribe_audio\<close>: its result (\<open>Inl\<close> the text of the
  exception it raised), the locals, the state. A text that is not a string cannot be
  sliced for the log line or does not pass the response schema: both raise inside the
  \<^verbatim>\<open>try\<close>.
\<close>

definition transcribe_try ::
  "env \<Rightarrow> nat \<Rightarrow> ASRModel \<Rightarrow> upload \<Rightarrow> world \<Rightarrow>
     (string + TranscriptionResponse) \<times> temp_locals \<times> world" where
  "transcribe_try en asr_model model file w =
     (case read_and_stage en file w of
        (Inl msg, loc, w1) \<Rightarrow> (Inl msg, loc, w1)
      | (Inr (temp_file_path, content), loc, w1) \<Rightarrow>
          (let w2 = record_event (Invoke asr_model temp_file_path) w1
           in case asr_call en asr_model temp_file_path content of
                Inl msg \<Rightarrow> (Inl msg, loc, w2)
              | Inr result \<Rightarrow>
                  (case normalize_result en result of
                     PStr transcription_text \<Rightarrow>
                       (Inr \<lparr>resp_text = transcription_text,
                             resp_model = model_value model,
                             resp_language = Some (cfg_language (MODEL_CONFIG model)),
                             resp_confidence = None,
                             resp_status = ''success''\<rparr>, loc, w2)
                   | v \<Rightarrow> (Inl (text_error en v), loc, w2))))"

text \<open>
  The \<^verbatim>\<open>finally\<close>: \<^verbatim>\<open>temp_file is not None and os.path.exists(temp_file_path)\<close>, then
  \<^verbatim>\<open>os.unlink\<close> inside its own \<^verbatim>\<open>try\<close>, a failure being logged only. Reading
  \<^verbatim>\<open>temp_file_path\<close> before it was assigned raises.
\<close>

definition transcribe_finally :: "env \<Rightarrow> temp_locals \<Rightarrow> world \<Rightarrow> exn option \<times> world" where
  "transcribe_finally en loc w =
     (case loc of
        NoTemp \<Rightarrow> (None, w)
      | TempNoPath \<Rightarrow> (Some UnboundLocalError, w)
      | TempPath p \<Rightarrow> (if path_exists p w then (None, snd (os_unlink en p w)) else (None, w)))"

definition transcribe_audio ::
  "env \<Rightarrow> upload \<Rightarrow> ASRModel \<Rightarrow> world \<Rightarrow> (exn + TranscriptionResponse) \<times> world" where
  "transcribe_audio en file model w =
     (if \<not> is_wav file then
        (Inl (HTTPException 400 ''Only WAV files are supported. Please upload a .wav file.''), w)
      else
        (case get_or_load_model en model w of
           (Inl e, w1) \<Rightarrow> (Inl e, w1)
         | (Inr asr_model, w1) \<Rightarrow>
             (case transcribe_try en asr_model model file w1 of
                (r, loc, w2) \<Rightarrow>
                  (let outcome =
                         (case r of
                            Inl msg \<Rightarrow> Inl (HTTPException 500 (''Failed to transcribe audio: '' @ msg))
                          | Inr resp \<Rightarrow> Inr resp)
                   in case transcribe_finally en loc w2 of
                        (Some e, w3) \<Rightarrow> (Inl e, w3)
                      | (None, w3) \<Rightarrow> (outcome, w3)))))"

section \<open>The batch endpoint\<close>

definition validation_entry :: "upload \<Rightarrow> (string \<times> pyval) list" where
  "validation_entry file =
     [(''filename'', PStr (filename file)),
      (''status'', PStr ''error''),
      (''message'', PStr ''Only WAV files are supported'')]"

definition success_entry :: "upload \<Rightarrow> pyval \<Rightarrow> ASRModel \<Rightarrow> (string \<times> pyval) list" where
  "success_entry file transcription_text model =
     [(''filename'', PStr (filename file)),
      (''text'', transcription_text),
      (''model'', PStr (model_value model)),
      (''language'', PStr (cfg_language (MODEL_CONFIG model))),
      (''status'', PStr ''success'')]"

definition error_entry :: "upload \<Rightarrow> string \<Rightarrow> (string \<times> pyval) list" where
  "error_entry file msg =
     [(''filename'', PStr (filename file)),
      (''status'', PStr ''error''),
      (''message'', PStr msg)]"

text \<open>
  The body of the \<^verbatim>\<open>try\<close> of one iteration of the loop of \<^verbatim>\<open>transcribe_batch\<close>: the
  entries it appended to \<^verbatim>\<open>results\<close>, the text of the exception it raised if any, the
  state. \<^verbatim>\<open>os.unlink\<close> is its last statement, after the entry of a success is appended.
\<close>

definition batch_try ::
  "env \<Rightarrow> nat \<Rightarrow> ASRModel \<Rightarrow> upload \<Rightarrow> world \<Rightarrow>
     (string \<times> pyval) list list \<times> string option \<times> world" where
  "batch_try en asr_model model file w =
     (if \<not> is_wav file then ([validation_entry file], None, w)
      else
        (case read_and_stage en file w of
           (Inl msg, loc, w1) \<Rightarrow> ([], Some msg, w1)
         | (Inr (temp_file_path, content), loc, w1) \<Rightarrow>
             (let w2 = record_event (Invoke asr_model temp_file_path) w1
              in case asr_call en asr_model temp_file_path content of
                   Inl msg \<Rightarrow> ([], Some msg, w2)
                 | Inr result \<Rightarrow>
                     (let transcription_text = normalize_result en result;
                          appended = [success_entry file transcription_text model]
                      in case os_unlink en temp_file_path w2 of
                           (Inl msg, w3) \<Rightarrow> (appended, Some msg, w3)
                         | (Inr u, w3) \<Rightarrow> (appended, None, w3)))))"

text \<open>One iteration: the \<^verbatim>\<open>try\<close>, and the \<^verbatim>\<open>except Exception\<close> that appends an entry.\<close>

definition batch_item ::
  "env \<Rightarrow> nat \<Rightarrow> ASRModel \<Rightarrow> upload \<Rightarrow> world \<Rightarrow> (string \<times> pyval) list list \<times> world" where
  "batch_item en asr_model model file w =
     (case batch_try en asr_model model file w of
        (appended, None, w1) \<Rightarrow> (appended, w1)
      | (appended, Some msg, w1) \<Rightarrow> (appended @ [error_entry file msg], w1))"

fun batch_loop ::
  "env \<Rightarrow> nat \<Rightarrow> ASRModel \<Rightarrow> upload list \<Rightarrow> world \<Rightarrow> (string \<times> pyval) list list \<times> world" where
  "batch_loop en asr_model model [] w = ([], w)"
| "batch_loop en asr_model model (file # rest) w =
     (case batch_item en asr_model model file w of
        (appended, w1) \<Rightarrow>
          (case batch_loop en asr_model model rest w1 of
             (results, w2) \<Rightarrow> (appended @ results, w2)))"

definition transcribe_batch ::
  "env \<Rightarrow> upload list \<Rightarrow> ASRModel \<Rightarrow> world \<Rightarrow> (exn + batch_report) \<times> world" where
  "transcribe_batch en uploads model w =
     (case get_or_load_model en model w of
        (Inl e, w1) \<Rightarrow> (Inl e, w1)
      | (Inr asr_model, w1) \<Rightarrow>
          (case batch_loop en asr_model model uploads w1 of
             (results, w2) \<Rightarrow>
               (Inr \<lparr>rep_results = results,
                     rep_total = length uploads,
                     rep_model = model_value model,
                     rep_status = ''completed''\<rparr>, w2)))"

section \<open>A stub engine and stub storage\<close>

text \<open>
  Collaborators for concrete runs: no accelerator, an engine whose construction gives the
  handle 7 and whose invocation echoes the staged bytes as \<^verbatim>\<open>{"text": bytes}\<close>, and
  storage on which nothing fails.
\<close>

definition stub_env :: env where
  "stub_env =
     \<lparr>cuda_is_available = False,
      pipeline = (\<lambda>args. Inr 7),
      tmp_create_error = (\<lambda>p. None),
      tmp_write_error = (\<lambda>p content. None),
      asr_call = (\<lambda>h p content. Inr (PDict [(''text'', PStr content)])),
      unlink_error = (\<lambda>p. None),
      py_str = (\<lambda>v. ''<object>''),
      text_error = (\<lambda>v. ''text is not a string'')\<rparr>"

definition empty_world :: world where
  "empty_world = \<lparr>loaded_models = Map.empty, files = [], trace = []\<rparr>"

definition clip_mp3 :: upload where
  "clip_mp3 = \<lparr>filename = ''clip.mp3'', read_result = Inr ''ID3''\<rparr>"

definition a_wav :: upload where
  "a_wav = \<lparr>filename = ''a.wav'', read_result = Inr ''RIFF''\<rparr>"

definition c_wav :: upload where
  "c_wav = \<lparr>filename = ''C.WAV'', read_result = Inr ''WAVE''\<rparr>"

text \<open>
  Uploads and collaborators that fail: an upload that cannot be read, storage that is
  full for one content, an engine that raises on another.
\<close>

definition unreadable_wav :: upload where
  "unreadable_wav = \<lparr>filename = ''b.wav'', read_result = Inl ''connection reset''\<rparr>"

definition full_wav :: upload where
  "full_wav = \<lparr>filename = ''d.wav'', read_result = Inr ''FULL''\<rparr>"

definition noise_wav :: upload where
  "noise_wav = \<lparr>filename = ''e.wav'', read_result = Inr ''NOISE''\<rparr>"

definition faulty_env :: env where
  "faulty_env =
     stub_env
       \<lparr>tmp_write_error :=
          (\<lambda>p content. if content = ''FULL'' then Some ''No space left on device'' else None),
        asr_call :=
          (\<lambda>h p content. if content = ''NOISE'' then Inl ''decode error''
                          else Inr (PDict [(''text'', PStr content)]))\<rparr>"

section \<open>Concurrent requests\<close>

text \<open>
  Both handlers are coroutines (\<^verbatim>\<open>async def\<close>) started by \<^verbatim>\<open>uvicorn.run(app, ...)\<close> on
  one event loop: a handler runs without interruption from one \<^verbatim>\<open>await\<close> to the next,
  and another request can run only while it waits. The only \<^verbatim>\<open>await\<close> of either handler
  is \<^verbatim>\<open>await file.read()\<close> (lines 145 and 224). \<^verbatim>\<open>get_or_load_model\<close> is a plain
  \<^verbatim>\<open>def\<close> without an \<^verbatim>\<open>await\<close>, called before the first \<^verbatim>\<open>await\<close> of its handler, so
  its check, its call of the engine and its store lie in one segment.

  A task is a request with the place where it waits: not yet started; the single-file
  handler at its \<^verbatim>\<open>await\<close>, holding the handle; the batch handler at the \<^verbatim>\<open>await\<close> of one
  upload, holding the handle, the number of uploads, the entries so far, that upload
  and the uploads after it; or finished with its outcome.
\<close>

datatype outcome =
    Response "exn + TranscriptionResponse"
  | Report "exn + batch_report"

datatype task =
    Single_Start upload ASRModel
  | Single_Reading nat upload ASRModel
  | Batch_Start "upload list" ASRModel
  | Batch_Reading nat ASRModel nat "(string \<times> pyval) list list" upload "upload list"
  | Finished outcome

text \<open>
  The single-file handler from its \<^verbatim>\<open>await\<close> to its end: the \<^verbatim>\<open>try\<close>, the handler of
  \<^verbatim>\<open>except Exception\<close> and the \<^verbatim>\<open>finally\<close>, as in \<open>transcribe_audio\<close>.
\<close>

definition single_resume ::
  "env \<Rightarrow> nat \<Rightarrow> ASRModel \<Rightarrow> upload \<Rightarrow> world \<Rightarrow> (exn + TranscriptionResponse) \<times> world" where
  "single_resume en asr_model model file w1 =
     (case transcribe_try en asr_model model file w1 of
        (r, loc, w2) \<Rightarrow>
          (let outcome =
                 (case r of
                    Inl msg \<Rightarrow> Inl (HTTPException 500 (''Failed to transcribe audio: '' @ msg))
                  | Inr resp \<Rightarrow> Inr resp)
           in case transcribe_finally en loc w2 of
                (Some e, w3) \<Rightarrow> (Inl e, w3)
              | (None, w3) \<Rightarrow> (outcome, w3)))"

text \<open>
  The batch loop up to its next \<^verbatim>\<open>await\<close>: uploads whose name does not end in
  \<^verbatim>\<open>.wav\<close> get their entry and the loop goes on; the first other upload is where it waits.
\<close>

fun batch_until_await ::
  "upload list \<Rightarrow> (string \<times> pyval) list list \<Rightarrow> (string \<times> pyval) list list \<times> upload list" where
  "batch_until_await [] results = (results, [])"
| "batch_until_await (file # rest) results =
     (if \<not> is_wav file then batch_until_await rest (results @ [validation_entry file])
      else (results, file # rest))"

definition batch_suspend ::
  "nat \<Rightarrow> ASRModel \<Rightarrow> nat \<Rightarrow> (string \<times> pyval) list list \<Rightarrow> upload list \<Rightarrow> task" where
  "batch_suspend asr_model model n results uploads =
     (case batch_until_await uploads results of
        (results1, []) \<Rightarrow>
          Finished (Report (Inr \<lparr>rep_results = results1,
                                 rep_total = n,
                                 rep_model = model_value model,
                                 rep_status = ''completed''\<rparr>))
      | (results1, file # rest) \<Rightarrow> Batch_Reading asr_model model n results1 file rest)"

text \<open>
  One segment of a task: the task after it, what its call of \<open>get_or_load_model\<close>
  returned or raised if the segment made that call, and the state.
\<close>

fun task_step :: "env \<Rightarrow> task \<Rightarrow> world \<Rightarrow> task \<times> (exn + nat) option \<times> world" where
  "task_step en (Single_Start file model) w =
     (if \<not> is_wav file then
        (Finished (Response (Inl (HTTPException 400
           ''Only WAV files are supported. Please upload a .wav file.''))), None, w)
      else
        (case get_or_load_model en model w of
           (Inl e, w1) \<Rightarrow> (Finished (Response (Inl e)), Some (Inl e), w1)
         | (Inr asr_model, w1) \<Rightarrow> (Single_Reading asr_model file model, Some (Inr asr_model), w1)))"
| "task_step en (Single_Reading asr_model file model) w =
     (case single_resume en asr_model model file w of
        (r, w1) \<Rightarrow> (Finished (Response r), None, w1))"
| "task_step en (Batch_Start uploads model) w =
     (case get_or_load_model en model w of
        (Inl e, w1) \<Rightarrow> (Finished (Report (Inl e)), Some (Inl e), w1)
      | (Inr asr_model, w1) \<Rightarrow>
          (batch_suspend asr_model model (length uploads) [] uploads, Some (Inr asr_model), w1))"
| "task_step en (Batch_Reading asr_model model n results file rest) w =
     (case batch_item en asr_model model file w of
        (appended, w1) \<Rightarrow> (batch_suspend asr_model model n (results @ appended) rest, None, w1))"
| "task_step en (Finished r) w = (Finished r, None, w)"

text \<open>A task with what its call of \<open>get_or_load_model\<close> gave, once it has made it.\<close>

definition thread_step ::
  "env \<Rightarrow> task \<times> (exn + nat) option \<Rightarrow> world \<Rightarrow> (task \<times> (exn + nat) option) \<times> world" where
  "thread_step en th w =
     (case task_step en (fst th) w of
        (t, seen, w1) \<Rightarrow> ((t, (case seen of None \<Rightarrow> snd th | Some r \<Rightarrow> Some r)), w1))"

text \<open>
  Two tasks on the event loop: the schedule says, segment after segment, which of the two
  runs next (\<open>True\<close> for the first).
\<close>

fun run_schedule ::
  "env \<Rightarrow> bool list \<Rightarrow> task \<times> (exn + nat) option \<Rightarrow> task \<times> (exn + nat) option \<Rightarrow> world \<Rightarrow>
     (task \<times> (exn + nat) option) \<times> (task \<times> (exn + nat) option) \<times> world" where
  "run_schedule en [] a b w = (a, b, w)"
| "run_schedule en (first # sched) a b w =
     (if first then
        (case thread_step en a w of (a1, w1) \<Rightarrow> run_schedule en sched a1 b w1)
      else
        (case thread_step en b w of (b1, w1) \<Rightarrow> run_schedule en sched a b1 w1))"

text \<open>A task alone, for a number of segments.\<close>

fun run_alone :: "env \<Rightarrow> nat \<Rightarrow> task \<Rightarrow> world \<Rightarrow> task \<times> world" where
  "run_alone en 0 t w = (t, w)"
| "run_alone en (Suc n) t w =
     (case task_step en t w of (t1, seen, w1) \<Rightarrow> run_alone en n t1 w1)"

text \<open>A task that has not started and whose first segment calls \<open>get_or_load_model\<close> for the model.\<close>

fun first_call_for :: "ASRModel \<Rightarrow> task \<Rightarrow> bool" where
  "first_call_for m (Single_Start file model) = (is_wav file \<and> model = m)"
| "first_call_for m (Batch_Start uploads model) = (model = m)"
| "first_call_for m t = False"

fun is_Build :: "event \<Rightarrow> bool" where
  "is_Build (Build args) = True"
| "is_Build e = False"

text \<open>
  What holds of a task between segments, for a model and the handle the engine gives
  for it: either it has not started, or its call returned that handle, which the cache
  holds and which the task carries while it waits.
\<close>

fun thread_ok :: "ASRModel \<Rightarrow> nat \<Rightarrow> world \<Rightarrow> task \<times> (exn + nat) option \<Rightarrow> bool" where
  "thread_ok m h w (Single_Start file model, seen) = (is_wav file \<and> model = m \<and> seen = None)"
| "thread_ok m h w (Batch_Start uploads model, seen) = (model = m \<and> seen = None)"
| "thread_ok m h w (Single_Reading asr_model file model, seen) =
     (asr_model = h \<and> seen = Some (Inr h) \<and> loaded_models w m = Some h)"
| "thread_ok m h w (Batch_Reading asr_model model n results file rest, seen) =
     (asr_model = h \<and> seen = Some (Inr h) \<and> loaded_models w m = Some h)"
| "thread_ok m h w (Finished r, seen) = (seen = Some (Inr h) \<and> loaded_models w m = Some h)"

definition started :: "task \<times> (exn + nat) option \<Rightarrow> bool" where
  "started th = (case fst th of Single_Start file model \<Rightarrow> False
                 | Batch_Start uploads model \<Rightarrow> False | _ \<Rightarrow> True)"

text \<open>
  What holds of the cache and of the calls of the engine between segments, given the
  calls made before the two requests: no entry for the model and no further call, or the
  entry the engine gave and one further call.
\<close>

definition cache_ok :: "ASRModel \<Rightarrow> nat \<Rightarrow> pipeline_args \<Rightarrow> event list \<Rightarrow> world \<Rightarrow> bool" where
  "cache_ok m h args base w =
     (case loaded_models w m of
        None \<Rightarrow> filter is_Build (trace w) = base
      | Some h1 \<Rightarrow> h1 = h \<and> filter is_Build (trace w) = base @ [Build args])"

section \<open>Properties of the model cache\<close>

lemma get_or_load_model_hit:
  "loaded_models w m = Some h \<Longrightarrow> get_or_load_model en m w = (Inr h, w)"
  by (simp add: get_or_load_model_def)

lemma get_or_load_model_miss_ok:
  "loaded_models w m = None \<Longrightarrow> pipeline en (pipeline_args_for en m) = Inr h \<Longrightarrow>
   get_or_load_model en m w =
     (Inr h, w\<lparr>loaded_models := (loaded_models w)(m \<mapsto> h),
               trace := trace w @ [Build (pipeline_args_for en m)]\<rparr>)"
  by (simp add: get_or_load_model_def record_event_def Let_def)

lemma get_or_load_model_miss_fail:
  "loaded_models w m = None \<Longrightarrow> pipeline en (pipeline_args_for en m) = Inl msg \<Longrightarrow>
   get_or_load_model en m w =
     (Inl (HTTPException 500 (''Failed to load model: '' @ msg)),
      w\<lparr>trace := trace w @ [Build (pipeline_args_for en m)]\<rparr>)"
  by (simp add: get_or_load_model_def record_event_def Let_def)

lemma stub_pipeline: "pipeline stub_env args = Inr 7"
  by (simp add: stub_env_def)

text \<open>
  Claim C3. For every model identifier, a call of \<open>get_or_load_model\<close> that finds no
  entry makes exactly one call of the engine's construction (one \<open>Build\<close> is added to the
  trace); when that gives a handle, the handle is returned and stored, and the next call
  for the same identifier returns the same handle and leaves the whole state, the trace
  included, as it was: the engine is not asked again. The same holds of any call that
  finds an entry.
\<close>

theorem get_or_load_model_builds_once:
  "(loaded_models w m = Some h \<longrightarrow> get_or_load_model en m w = (Inr h, w)) \<and>
   (loaded_models w m = None \<and> pipeline en (pipeline_args_for en m) = Inr h \<longrightarrow>
      (case get_or_load_model en m w of
         (r1, w1) \<Rightarrow>
           r1 = Inr h \<and> loaded_models w1 m = Some h \<and>
           trace w1 = trace w @ [Build (pipeline_args_for en m)] \<and>
           get_or_load_model en m w1 = (Inr h, w1)))"
proof (intro conjI impI)
  assume "loaded_models w m = Some h"
  then show "get_or_load_model en m w = (Inr h, w)"
    by (rule get_or_load_model_hit)
next
  assume miss: "loaded_models w m = None \<and> pipeline en (pipeline_args_for en m) = Inr h"
  define w1 where "w1 = w\<lparr>loaded_models := (loaded_models w)(m \<mapsto> h),
                          trace := trace w @ [Build (pipeline_args_for en m)]\<rparr>"
  from miss have first: "get_or_load_model en m w = (Inr h, w1)"
    unfolding w1_def by (simp add: get_or_load_model_miss_ok)
  have stored: "loaded_models w1 m = Some h"
    by (simp add: w1_def)
  then have second: "get_or_load_model en m w1 = (Inr h, w1)"
    by (rule get_or_load_model_hit)
  have "trace w1 = trace w @ [Build (pipeline_args_for en m)]"
    by (simp add: w1_def)
  with first stored second
  show "case get_or_load_model en m w of
          (r1, w1) \<Rightarrow>
            r1 = Inr h \<and> loaded_models w1 m = Some h \<and>
            trace w1 = trace w @ [Build (pipeline_args_for en m)] \<and>
            get_or_load_model en m w1 = (Inr h, w1)"
    by simp
qed

theorem get_or_load_model_builds_once_witness:
  "loaded_models empty_world TYPHOON_ISAN_WHISPER = None \<and>
   pipeline stub_env (pipeline_args_for stub_env TYPHOON_ISAN_WHISPER) = Inr 7 \<and>
   fst (get_or_load_model stub_env TYPHOON_ISAN_WHISPER empty_world) = Inr 7 \<and>
   loaded_models (snd (get_or_load_model stub_env TYPHOON_ISAN_WHISPER empty_world))
     TYPHOON_ISAN_WHISPER = Some 7 \<and>
   get_or_load_model stub_env TYPHOON_ISAN_WHISPER
     (snd (get_or_load_model stub_env TYPHOON_ISAN_WHISPER empty_world)) =
     (Inr 7, snd (get_or_load_model stub_env TYPHOON_ISAN_WHISPER empty_world))"
proof -
  have miss: "loaded_models empty_world TYPHOON_ISAN_WHISPER = None"
    by (simp add: empty_world_def)
  have built: "pipeline stub_env (pipeline_args_for stub_env TYPHOON_ISAN_WHISPER) = Inr 7"
    by (rule stub_pipeline)
  from miss built
    get_or_load_model_builds_once [of empty_world TYPHOON_ISAN_WHISPER 7 stub_env]
  show ?thesis
    by (auto split: prod.splits)
qed

text \<open>
  Claim C4. When the engine's construction raises, \<open>get_or_load_model\<close> leaves the cache
  as it was and raises \<^verbatim>\<open>HTTPException(500)\<close> whose detail is
  \<^verbatim>\<open>"Failed to load model: "\<close> followed by the engine's message; when it gives a handle,
  that handle is returned and stored under the identifier. An identifier that has an
  entry keeps that very entry through any call, so the cache never holds a second
  instance for it.
\<close>

theorem get_or_load_model_failure_stores_nothing:
  "(loaded_models w m = None \<and> pipeline en (pipeline_args_for en m) = Inl msg \<longrightarrow>
      fst (get_or_load_model en m w) =
        Inl (HTTPException 500 (''Failed to load model: '' @ msg)) \<and>
      loaded_models (snd (get_or_load_model en m w)) = loaded_models w) \<and>
   (loaded_models w m = None \<and> pipeline en (pipeline_args_for en m) = Inr h \<longrightarrow>
      fst (get_or_load_model en m w) = Inr h \<and>
      loaded_models (snd (get_or_load_model en m w)) = (loaded_models w)(m \<mapsto> h)) \<and>
   (\<forall>m' h'. loaded_models w m' = Some h' \<longrightarrow>
      loaded_models (snd (get_or_load_model en m w)) m' = Some h')"
proof (intro conjI impI allI)
  assume "loaded_models w m = None \<and> pipeline en (pipeline_args_for en m) = Inl msg"
  then have "get_or_load_model en m w =
      (Inl (HTTPException 500 (''Failed to load model: '' @ msg)),
       w\<lparr>trace := trace w @ [Build (pipeline_args_for en m)]\<rparr>)"
    by (simp add: get_or_load_model_miss_fail)
  then show "fst (get_or_load_model en m w) =
        Inl (HTTPException 500 (''Failed to load model: '' @ msg))"
    and "loaded_models (snd (get_or_load_model en m w)) = loaded_models w"
    by simp_all
next
  assume "loaded_models w m = None \<and> pipeline en (pipeline_args_for en m) = Inr h"
  then have "get_or_load_model en m w =
      (Inr h, w\<lparr>loaded_models := (loaded_models w)(m \<mapsto> h),
                trace := trace w @ [Build (pipeline_args_for en m)]\<rparr>)"
    by (simp add: get_or_load_model_miss_ok)
  then show "fst (get_or_load_model en m w) = Inr h"
    and "loaded_models (snd (get_or_load_model en m w)) = (loaded_models w)(m \<mapsto> h)"
    by simp_all
next
  fix m' h'
  assume kept: "loaded_models w m' = Some h'"
  show "loaded_models (snd (get_or_load_model en m w)) m' = Some h'"
  proof (cases "loaded_models w m")
    case (Some h0)
    then show ?thesis using kept by (simp add: get_or_load_model_hit)
  next
    case None
    then have "m' \<noteq> m" using kept by auto
    with None kept show ?thesis
      by (cases "pipeline en (pipeline_args_for en m)")
         (simp_all add: get_or_load_model_miss_fail get_or_load_model_miss_ok)
  qed
qed

theorem get_or_load_model_failure_stores_nothing_witness:
  "loaded_models empty_world MONSOON_WHISPER_MEDIUM = None \<and>
   fst (get_or_load_model (stub_env\<lparr>pipeline := (\<lambda>args. Inl ''out of memory'')\<rparr>)
          MONSOON_WHISPER_MEDIUM empty_world) =
     Inl (HTTPException 500 ''Failed to load model: out of memory'') \<and>
   loaded_models
     (snd (get_or_load_model (stub_env\<lparr>pipeline := (\<lambda>args. Inl ''out of memory'')\<rparr>)
             MONSOON_WHISPER_MEDIUM empty_world)) MONSOON_WHISPER_MEDIUM = None"
proof -
  have miss: "loaded_models empty_world MONSOON_WHISPER_MEDIUM = None"
    by (simp add: empty_world_def)
  have failed: "pipeline (stub_env\<lparr>pipeline := (\<lambda>args. Inl ''out of memory'')\<rparr>) args =
      Inl ''out of memory''" for args
    by simp
  from miss failed
    get_or_load_model_failure_stores_nothing
      [of empty_world MONSOON_WHISPER_MEDIUM
          "stub_env\<lparr>pipeline := (\<lambda>args. Inl ''out of memory'')\<rparr>" "''out of memory''"]
  show ?thesis
    by simp
qed

text \<open>
  Claim C9. A call of \<open>get_or_load_model\<close> that finds no entry asks the engine for a
  handle on the repository of the identifier with: the accelerator (device 0) and half
  precision when an accelerator is available, the processor (device -1) and single
  precision otherwise; chunks of 30 seconds; timestamps on. The handle it returns is the
  one the engine gave for these arguments.
\<close>

theorem get_or_load_model_device_and_chunking:
  "loaded_models w m = None \<Longrightarrow>
   trace (snd (get_or_load_model en m w)) =
     trace w @
       [Build \<lparr>pl_task = ''automatic-speech-recognition'',
               pl_model = cfg_repo (MODEL_CONFIG m),
               pl_device = (if cuda_is_available en then 0 else - 1),
               pl_torch_dtype = (if cuda_is_available en then float16 else float32),
               pl_chunk_length_s = 30,
               pl_return_timestamps = True\<rparr>] \<and>
   (\<forall>h. fst (get_or_load_model en m w) = Inr h \<longrightarrow>
      pipeline en \<lparr>pl_task = ''automatic-speech-recognition'',
                   pl_model = cfg_repo (MODEL_CONFIG m),
                   pl_device = (if cuda_is_available en then 0 else - 1),
                   pl_torch_dtype = (if cuda_is_available en then float16 else float32),
                   pl_chunk_length_s = 30,
                   pl_return_timestamps = True\<rparr> = Inr h)"
proof -
  assume miss: "loaded_models w m = None"
  have args: "pipeline_args_for en m =
      \<lparr>pl_task = ''automatic-speech-recognition'',
       pl_model = cfg_repo (MODEL_CONFIG m),
       pl_device = (if cuda_is_available en then 0 else - 1),
       pl_torch_dtype = (if cuda_is_available en then float16 else float32),
       pl_chunk_length_s = 30,
       pl_return_timestamps = True\<rparr>"
    by (simp add: pipeline_args_for_def)
  show ?thesis
  proof (cases "pipeline en (pipeline_args_for en m)")
    case (Inl msg)
    with miss show ?thesis
      unfolding args [symmetric] by (simp add: get_or_load_model_miss_fail)
  next
    case (Inr h)
    with miss show ?thesis
      unfolding args [symmetric] by (simp add: get_or_load_model_miss_ok)
  qed
qed

theorem get_or_load_model_device_and_chunking_witness:
  "loaded_models empty_world TYPHOON_ISAN_WHISPER = None \<and>
   trace (snd (get_or_load_model (stub_env\<lparr>cuda_is_available := True\<rparr>)
                 TYPHOON_ISAN_WHISPER empty_world)) =
     [Build \<lparr>pl_task = ''automatic-speech-recognition'',
             pl_model = ''scb10x/typhoon-isan-asr-whisper'',
             pl_device = 0,
             pl_torch_dtype = float16,
             pl_chunk_length_s = 30,
             pl_return_timestamps = True\<rparr>] \<and>
   trace (snd (get_or_load_model stub_env TYPHOON_ISAN_WHISPER empty_world)) =
     [Build \<lparr>pl_task = ''automatic-speech-recognition'',
             pl_model = ''scb10x/typhoon-isan-asr-whisper'',
             pl_device = - 1,
             pl_torch_dtype = float32,
             pl_chunk_length_s = 30,
             pl_return_timestamps = True\<rparr>]"
proof -
  have miss: "loaded_models empty_world TYPHOON_ISAN_WHISPER = None"
    by (simp add: empty_world_def)
  have no_cuda: "\<not> cuda_is_available stub_env"
    by (simp add: stub_env_def)
  have start: "trace empty_world = []"
    by (simp add: empty_world_def)
  from miss no_cuda start
    get_or_load_model_device_and_chunking
      [OF miss, of "stub_env\<lparr>cuda_is_available := True\<rparr>"]
    get_or_load_model_device_and_chunking [OF miss, of stub_env]
  show ?thesis
    by simp
qed

section \<open>Properties of result normalization\<close>

text \<open>
  Claim C7. Normalization is a total function of the engine's result. For every string
  \<open>s\<close>, the record \<^verbatim>\<open>{"text": s}\<close>, every record whose \<^verbatim>\<open>text\<close> field is \<open>s\<close>, and
  the bare string \<open>s\<close> all normalize to \<open>s\<close>; a value of any other shape (\<^verbatim>\<open>None\<close>, a
  number, a list) normalizes to its string conversion.
\<close>

theorem normalize_result_three_shapes:
  "normalize_result en (PDict [(''text'', PStr s)]) = PStr s \<and>
   normalize_result en (PStr s) = PStr s \<and>
   (map_of d ''text'' = Some (PStr s) \<longrightarrow> normalize_result en (PDict d) = PStr s) \<and>
   normalize_result en PNone = PStr (py_str en PNone) \<and>
   normalize_result en (PInt i) = PStr (py_str en (PInt i)) \<and>
   normalize_result en (PList vs) = PStr (py_str en (PList vs))"
  by (simp add: normalize_result_def)

theorem normalize_result_three_shapes_witness:
  "map_of [(''chunks'', PList []), (''text'', PStr ''known string'')] ''text'' =
     Some (PStr ''known string'') \<and>
   normalize_result stub_env
     (PDict [(''chunks'', PList []), (''text'', PStr ''known string'')]) =
     PStr ''known string'' \<and>
   normalize_result stub_env (PDict [(''text'', PStr ''known string'')]) =
     normalize_result stub_env (PStr ''known string'') \<and>
   normalize_result stub_env (PList [PInt 1]) = PStr ''<object>''"
proof -
  have field: "map_of [(''chunks'', PList []), (''text'', PStr ''known string'')] ''text'' =
      Some (PStr ''known string'')"
    by simp
  have conv: "py_str stub_env v = ''<object>''" for v
    by (simp add: stub_env_def)
  from field conv
    normalize_result_three_shapes
      [of stub_env "''known string''"
          "[(''chunks'', PList []), (''text'', PStr ''known string'')]" 1 "[PInt 1]"]
  show ?thesis
    by simp
qed

section \<open>Properties of staging\<close>

lemma fold_max_ge: "a \<le> fold max xs (a::nat)"
proof (induction xs arbitrary: a)
  case Nil
  show ?case by simp
next
  case (Cons x xs)
  have "a \<le> max x a" by simp
  also have "max x a \<le> fold max xs (max x a)" by (rule Cons.IH)
  finally show ?case by simp
qed

lemma fold_max_upper: "x \<in> set xs \<Longrightarrow> x \<le> fold max xs (a::nat)"
proof (induction xs arbitrary: a)
  case Nil
  then show ?case by simp
next
  case (Cons y ys)
  show ?case
  proof (cases "x = y")
    case True
    have "y \<le> max y a" by simp
    also have "max y a \<le> fold max ys (max y a)" by (rule fold_max_ge)
    finally show ?thesis using True by simp
  next
    case False
    with Cons.prems have "x \<in> set ys" by simp
    then show ?thesis by (simp add: Cons.IH)
  qed
qed

lemma fresh_path_is_fresh: "(p, c) \<in> set fs \<Longrightarrow> p \<noteq> fresh_path fs"
proof
  assume mem: "(p, c) \<in> set fs" and eq: "p = fresh_path fs"
  from mem have "p \<in> set (map fst fs)" by force
  then have "p \<le> fold max (map fst fs) 0" by (rule fold_max_upper)
  with eq show False by (simp add: fresh_path_def)
qed

lemma filter_fresh_path: "filter (\<lambda>(q, c). q \<noteq> fresh_path fs) fs = fs"
  by (rule filter_True) (auto dest: fresh_path_is_fresh)

lemma read_and_stage_ok:
  assumes "read_result file = Inr c"
    and "tmp_create_error en (fresh_path (files w)) = None"
    and "tmp_write_error en (fresh_path (files w)) c = None"
  shows "read_and_stage en file w =
     (Inr (fresh_path (files w), c), TempPath (fresh_path (files w)),
      w\<lparr>files := (fresh_path (files w), c) # files w,
        trace := trace w @ [Read (filename file), Create (fresh_path (files w))]\<rparr>)"
  using assms by (simp add: read_and_stage_def record_event_def Let_def filter_fresh_path)

lemma read_and_stage_read_fails:
  "read_result file = Inl msg \<Longrightarrow>
   read_and_stage en file w = (Inl msg, NoTemp, w\<lparr>trace := trace w @ [Read (filename file)]\<rparr>)"
  by (simp add: read_and_stage_def record_event_def Let_def)

lemma read_and_stage_create_fails:
  "read_result file = Inr c \<Longrightarrow> tmp_create_error en (fresh_path (files w)) = Some msg \<Longrightarrow>
   read_and_stage en file w = (Inl msg, NoTemp, w\<lparr>trace := trace w @ [Read (filename file)]\<rparr>)"
  by (simp add: read_and_stage_def record_event_def Let_def)

lemma read_and_stage_write_fails:
  "read_result file = Inr c \<Longrightarrow> tmp_create_error en (fresh_path (files w)) = None \<Longrightarrow>
   tmp_write_error en (fresh_path (files w)) c = Some msg \<Longrightarrow>
   read_and_stage en file w =
     (Inl msg, TempNoPath,
      w\<lparr>files := (fresh_path (files w), []) # files w,
        trace := trace w @ [Read (filename file), Create (fresh_path (files w))]\<rparr>)"
  by (simp add: read_and_stage_def record_event_def Let_def)

lemma os_unlink_removes:
  "snd (os_unlink en p (w\<lparr>files := (p, c) # fs\<rparr>)) =
     (if unlink_error en p = None
      then w\<lparr>files := filter (\<lambda>(q, c). q \<noteq> p) fs, trace := trace w @ [Unlink p]\<rparr>
      else w\<lparr>files := (p, c) # fs, trace := trace w @ [Unlink p]\<rparr>)"
  by (auto simp: os_unlink_def record_event_def Let_def)

section \<open>Properties of the endpoints\<close>

lemma stub_is_wav: "is_wav a_wav" "is_wav c_wav" "\<not> is_wav clip_mp3"
  by (simp_all add: is_wav_def a_wav_def c_wav_def clip_mp3_def endswith_def lower_char_def)

lemma batch_item_invalid: "\<not> is_wav file \<Longrightarrow> batch_item en h m file w = ([validation_entry file], w)"
  by (simp add: batch_item_def batch_try_def)

lemma batch_loop_all_invalid:
  "\<forall>f \<in> set uploads. \<not> is_wav f \<Longrightarrow>
   batch_loop en h m uploads w = (map validation_entry uploads, w)"
  by (induction uploads) (simp_all add: batch_item_invalid)

text \<open>
  What the code does with an upload whose name does not end in \<^verbatim>\<open>.wav\<close>. The
  single-file endpoint rejects it with \<^verbatim>\<open>HTTPException(400)\<close> before
  \<open>get_or_load_model\<close> is called: the state, its trace included, is what it was. In the
  batch endpoint its iteration records the failure entry and neither reads nor stages
  the file, nor calls the engine; but \<open>get_or_load_model\<close> has been called before the
  loop, so a batch of such uploads leaves the state that this call left, and has no
  report when this call raises.
\<close>

lemma invalid_extension_no_staging:
  assumes "\<not> is_wav file" and "\<forall>f \<in> set uploads. \<not> is_wav f"
  shows "transcribe_audio en file m w =
      (Inl (HTTPException 400 ''Only WAV files are supported. Please upload a .wav file.''), w) \<and>
    batch_item en h m file w = ([validation_entry file], w) \<and>
    transcribe_batch en uploads m w =
      (case get_or_load_model en m w of
         (Inl e, w1) \<Rightarrow> (Inl e, w1)
       | (Inr asr_model, w1) \<Rightarrow>
           (Inr \<lparr>rep_results = map validation_entry uploads,
                 rep_total = length uploads,
                 rep_model = model_value m,
                 rep_status = ''completed''\<rparr>, w1))"
proof (intro conjI)
  from assms(1) show "transcribe_audio en file m w =
      (Inl (HTTPException 400 ''Only WAV files are supported. Please upload a .wav file.''), w)"
    by (simp add: transcribe_audio_def)
  from assms(1) show "batch_item en h m file w = ([validation_entry file], w)"
    by (rule batch_item_invalid)
  from assms(2) show "transcribe_batch en uploads m w =
      (case get_or_load_model en m w of
         (Inl e, w1) \<Rightarrow> (Inl e, w1)
       | (Inr asr_model, w1) \<Rightarrow>
           (Inr \<lparr>rep_results = map validation_entry uploads,
                 rep_total = length uploads,
                 rep_model = model_value m,
                 rep_status = ''completed''\<rparr>, w1))"
    by (simp add: transcribe_batch_def batch_loop_all_invalid split: prod.splits sum.splits)
qed

lemma invalid_extension_no_staging_example:
  "\<not> is_wav clip_mp3 \<and>
   transcribe_audio stub_env clip_mp3 TYPHOON_ISAN_WHISPER empty_world =
     (Inl (HTTPException 400 ''Only WAV files are supported. Please upload a .wav file.''),
      empty_world) \<and>
   batch_item stub_env 7 TYPHOON_ISAN_WHISPER clip_mp3 empty_world =
     ([validation_entry clip_mp3], empty_world) \<and>
   fst (transcribe_batch stub_env [clip_mp3, clip_mp3] TYPHOON_ISAN_WHISPER empty_world) =
     Inr \<lparr>rep_results = [validation_entry clip_mp3, validation_entry clip_mp3],
           rep_total = 2,
           rep_model = ''typhoon-isan-asr-whisper'',
           rep_status = ''completed''\<rparr>"
proof -
  have bad: "\<not> is_wav clip_mp3"
    by (rule stub_is_wav)
  then have all_bad: "\<forall>f \<in> set [clip_mp3, clip_mp3]. \<not> is_wav f"
    by simp
  have loaded: "get_or_load_model stub_env TYPHOON_ISAN_WHISPER empty_world =
      (Inr 7, empty_world\<lparr>loaded_models := (loaded_models empty_world)(TYPHOON_ISAN_WHISPER \<mapsto> 7),
         trace := trace empty_world @ [Build (pipeline_args_for stub_env TYPHOON_ISAN_WHISPER)]\<rparr>)"
    by (rule get_or_load_model_miss_ok) (simp_all add: empty_world_def stub_pipeline)
  from bad loaded
    invalid_extension_no_staging
      [OF bad all_bad, of stub_env TYPHOON_ISAN_WHISPER empty_world 7]
  show ?thesis
    by simp
qed

text \<open>
  Claim C1 fails in the batch endpoint, which calls \<open>get_or_load_model\<close> on its first
  line, before the loop that validates the names, where the single-file endpoint
  validates first. With an empty cache, a batch of the single upload \<^verbatim>\<open>clip.mp3\<close>
  records the failure entry and the model has been loaded; when the engine cannot build
  the model, the same batch raises \<^verbatim>\<open>HTTPException(500)\<close> and records nothing. The
  single-file endpoint rejects the same upload with the state untouched.
\<close>

theorem batch_invalid_upload_loads_model:
  "\<not> is_wav clip_mp3 \<and>
   loaded_models empty_world TYPHOON_ISAN_WHISPER = None \<and>
   trace empty_world = [] \<and>
   fst (transcribe_batch stub_env [clip_mp3] TYPHOON_ISAN_WHISPER empty_world) =
     Inr \<lparr>rep_results = [validation_entry clip_mp3],
           rep_total = 1,
           rep_model = ''typhoon-isan-asr-whisper'',
           rep_status = ''completed''\<rparr> \<and>
   loaded_models (snd (transcribe_batch stub_env [clip_mp3] TYPHOON_ISAN_WHISPER empty_world))
     TYPHOON_ISAN_WHISPER = Some 7 \<and>
   trace (snd (transcribe_batch stub_env [clip_mp3] TYPHOON_ISAN_WHISPER empty_world)) =
     [Build (pipeline_args_for stub_env TYPHOON_ISAN_WHISPER)] \<and>
   fst (transcribe_batch (stub_env\<lparr>pipeline := (\<lambda>args. Inl ''out of memory'')\<rparr>)
          [clip_mp3] TYPHOON_ISAN_WHISPER empty_world) =
     Inl (HTTPException 500 ''Failed to load model: out of memory'') \<and>
   transcribe_audio stub_env clip_mp3 TYPHOON_ISAN_WHISPER empty_world =
     (Inl (HTTPException 400 ''Only WAV files are supported. Please upload a .wav file.''),
      empty_world)"
proof -
  have loaded: "get_or_load_model stub_env TYPHOON_ISAN_WHISPER empty_world =
      (Inr 7, empty_world\<lparr>loaded_models := (loaded_models empty_world)(TYPHOON_ISAN_WHISPER \<mapsto> 7),
         trace := trace empty_world @ [Build (pipeline_args_for stub_env TYPHOON_ISAN_WHISPER)]\<rparr>)"
    by (rule get_or_load_model_miss_ok) (simp_all add: empty_world_def stub_pipeline)
  have failed: "get_or_load_model (stub_env\<lparr>pipeline := (\<lambda>args. Inl ''out of memory'')\<rparr>)
      TYPHOON_ISAN_WHISPER empty_world =
      (Inl (HTTPException 500 (''Failed to load model: '' @ ''out of memory'')),
       empty_world\<lparr>trace := trace empty_world @
         [Build (pipeline_args_for (stub_env\<lparr>pipeline := (\<lambda>args. Inl ''out of memory'')\<rparr>)
            TYPHOON_ISAN_WHISPER)]\<rparr>)"
    by (rule get_or_load_model_miss_fail) (simp_all add: empty_world_def)
  have item: "batch_item stub_env 7 TYPHOON_ISAN_WHISPER clip_mp3 w = ([validation_entry clip_mp3], w)" for w
    by (rule batch_item_invalid) (rule stub_is_wav)
  have single: "transcribe_audio stub_env clip_mp3 TYPHOON_ISAN_WHISPER empty_world =
      (Inl (HTTPException 400 ''Only WAV files are supported. Please upload a .wav file.''),
       empty_world)"
    by (simp add: transcribe_audio_def stub_is_wav)
  show ?thesis
    by (simp add: stub_is_wav transcribe_batch_def loaded failed item single)
       (simp add: empty_world_def)
qed

lemma batch_loop_append:
  "batch_loop en h m (xs @ ys) w =
     (case batch_loop en h m xs w of
        (r1, w1) \<Rightarrow>
          (case batch_loop en h m ys w1 of
             (r2, w2) \<Rightarrow> (r1 @ r2, w2)))"
  by (induction xs arbitrary: w) (simp_all split: prod.splits)

lemma batch_try_shapes:
  "batch_try en h m file w = (appended, exc, w1) \<Longrightarrow>
   (appended = [validation_entry file] \<and> exc = None) \<or>
   (appended = [] \<and> exc \<noteq> None) \<or>
   (\<exists>t. appended = [success_entry file t m])"
  by (auto simp: batch_try_def Let_def split: if_splits sum.splits prod.splits)

lemma batch_item_shapes:
  "fst (batch_item en h m file w) = [validation_entry file] \<or>
   (\<exists>msg. fst (batch_item en h m file w) = [error_entry file msg]) \<or>
   (\<exists>t. fst (batch_item en h m file w) = [success_entry file t m]) \<or>
   (\<exists>t msg. fst (batch_item en h m file w) = [success_entry file t m, error_entry file msg])"
proof -
  obtain appended exc w1 where run: "batch_try en h m file w = (appended, exc, w1)"
    by (cases "batch_try en h m file w") auto
  from batch_try_shapes [OF run] show ?thesis
    by (cases exc) (auto simp: batch_item_def run)
qed

lemma entry_fields:
  "map_of (validation_entry file) ''filename'' = Some (PStr (filename file))"
  "map_of (validation_entry file) ''status'' = Some (PStr ''error'')"
  "map_of (validation_entry file) ''message'' = Some (PStr ''Only WAV files are supported'')"
  "map_of (validation_entry file) ''text'' = None"
  "map_of (error_entry file msg) ''filename'' = Some (PStr (filename file))"
  "map_of (error_entry file msg) ''status'' = Some (PStr ''error'')"
  "map_of (error_entry file msg) ''message'' = Some (PStr msg)"
  "map_of (error_entry file msg) ''text'' = None"
  "map_of (success_entry file t m) ''filename'' = Some (PStr (filename file))"
  "map_of (success_entry file t m) ''status'' = Some (PStr ''success'')"
  "map_of (success_entry file t m) ''text'' = Some t"
  by (simp_all add: validation_entry_def error_entry_def success_entry_def)

lemma stub_staging:
  "read_and_stage stub_env a_wav w =
     (Inr (fresh_path (files w), ''RIFF''), TempPath (fresh_path (files w)),
      w\<lparr>files := (fresh_path (files w), ''RIFF'') # files w,
        trace := trace w @ [Read ''a.wav'', Create (fresh_path (files w))]\<rparr>)"
  "read_and_stage stub_env c_wav w =
     (Inr (fresh_path (files w), ''WAVE''), TempPath (fresh_path (files w)),
      w\<lparr>files := (fresh_path (files w), ''WAVE'') # files w,
        trace := trace w @ [Read ''C.WAV'', Create (fresh_path (files w))]\<rparr>)"
proof -
  have a: "read_result a_wav = Inr ''RIFF''" "filename a_wav = ''a.wav''"
    by (simp_all add: a_wav_def)
  have c: "read_result c_wav = Inr ''WAVE''" "filename c_wav = ''C.WAV''"
    by (simp_all add: c_wav_def)
  have ok: "tmp_create_error stub_env p = None" "tmp_write_error stub_env p content = None"
    for p content
    by (simp_all add: stub_env_def)
  show "read_and_stage stub_env a_wav w =
     (Inr (fresh_path (files w), ''RIFF''), TempPath (fresh_path (files w)),
      w\<lparr>files := (fresh_path (files w), ''RIFF'') # files w,
        trace := trace w @ [Read ''a.wav'', Create (fresh_path (files w))]\<rparr>)"
    using read_and_stage_ok [of a_wav "''RIFF''" stub_env w] a ok by simp
  show "read_and_stage stub_env c_wav w =
     (Inr (fresh_path (files w), ''WAVE''), TempPath (fresh_path (files w)),
      w\<lparr>files := (fresh_path (files w), ''WAVE'') # files w,
        trace := trace w @ [Read ''C.WAV'', Create (fresh_path (files w))]\<rparr>)"
    using read_and_stage_ok [of c_wav "''WAVE''" stub_env w] c ok by simp
qed

lemma stub_fields:
  "asr_call stub_env h p content = Inr (PDict [(''text'', PStr content)])"
  "unlink_error stub_env p = None"
  "tmp_create_error stub_env p = None"
  "tmp_write_error stub_env p content = None"
  "py_str stub_env v = ''<object>''"
  "\<not> cuda_is_available stub_env"
  by (simp_all add: stub_env_def)

lemma stub_batch_item:
  "fst (batch_item stub_env h m a_wav w) = [success_entry a_wav (PStr ''RIFF'') m]"
  "fst (batch_item stub_env h m c_wav w) = [success_entry c_wav (PStr ''WAVE'') m]"
  "fst (batch_item stub_env h m clip_mp3 w) = [validation_entry clip_mp3]"
  by (simp_all add: batch_item_def batch_try_def stub_is_wav stub_staging Let_def
        os_unlink_def normalize_result_def stub_fields)

text \<open>
  The single-file endpoint once the upload is staged. Whatever the engine and the
  normalization do, \<^verbatim>\<open>os.unlink\<close> is called once on the staged path, as the last call
  of the request, and the file is gone unless that call raises; a failure of that call
  does not change the outcome.
\<close>

lemma transcribe_audio_staged:
  assumes valid: "is_wav file"
    and loaded: "get_or_load_model en m w = (Inr h, w1)"
    and content: "read_result file = Inr c"
    and created: "tmp_create_error en (fresh_path (files w1)) = None"
    and written: "tmp_write_error en (fresh_path (files w1)) c = None"
  shows "transcribe_audio en file m w =
     ((case asr_call en h (fresh_path (files w1)) c of
         Inl msg \<Rightarrow> Inl (HTTPException 500 (''Failed to transcribe audio: '' @ msg))
       | Inr result \<Rightarrow>
           (case normalize_result en result of
              PStr t \<Rightarrow>
                Inr \<lparr>resp_text = t,
                      resp_model = model_value m,
                      resp_language = Some (cfg_language (MODEL_CONFIG m)),
                      resp_confidence = None,
                      resp_status = ''success''\<rparr>
            | v \<Rightarrow> Inl (HTTPException 500 (''Failed to transcribe audio: '' @ text_error en v)))),
      w1\<lparr>files := (if unlink_error en (fresh_path (files w1)) = None then files w1
                    else (fresh_path (files w1), c) # files w1),
         trace := trace w1 @
           [Read (filename file), Create (fresh_path (files w1)),
            Invoke h (fresh_path (files w1)), Unlink (fresh_path (files w1))]\<rparr>)"
proof -
  define p where "p = fresh_path (files w1)"
  define w2 where "w2 = w1\<lparr>files := (p, c) # files w1,
      trace := trace w1 @ [Read (filename file), Create p, Invoke h p]\<rparr>"
  have staged: "read_and_stage en file w1 =
      (Inr (p, c), TempPath p,
       w1\<lparr>files := (p, c) # files w1, trace := trace w1 @ [Read (filename file), Create p]\<rparr>)"
    unfolding p_def by (rule read_and_stage_ok [OF content created written])
  have body: "transcribe_try en h m file w1 =
      ((case asr_call en h p c of
          Inl msg \<Rightarrow> Inl msg
        | Inr result \<Rightarrow>
            (case normalize_result en result of
               PStr t \<Rightarrow>
                 Inr \<lparr>resp_text = t,
                       resp_model = model_value m,
                       resp_language = Some (cfg_language (MODEL_CONFIG m)),
                       resp_confidence = None,
                       resp_status = ''success''\<rparr>
             | v \<Rightarrow> Inl (text_error en v))), TempPath p, w2)"
    by (simp add: transcribe_try_def staged record_event_def w2_def Let_def
          split: sum.splits pyval.splits)
  have cleanup: "transcribe_finally en (TempPath p) w2 =
      (None,
       w1\<lparr>files := (if unlink_error en p = None then files w1 else (p, c) # files w1),
          trace := trace w1 @ [Read (filename file), Create p, Invoke h p, Unlink p]\<rparr>)"
    by (simp add: transcribe_finally_def path_exists_def w2_def os_unlink_def record_event_def
          Let_def p_def filter_fresh_path split: option.splits)
  show ?thesis
    unfolding p_def [symmetric]
    by (simp add: transcribe_audio_def valid loaded body cleanup split: sum.splits pyval.splits)
qed

text \<open>
  The single-file endpoint when the write to the temporary file raises: the
  \<^verbatim>\<open>finally\<close> reads \<^verbatim>\<open>temp_file_path\<close> before it was assigned, so the request ends
  in \<^verbatim>\<open>UnboundLocalError\<close> instead of the \<^verbatim>\<open>HTTPException(500)\<close> of the handler, and
  the file that was created stays on storage. When the upload cannot be read or the file
  cannot be created, the handler's \<^verbatim>\<open>HTTPException(500)\<close> is the outcome and storage is
  as it was.
\<close>

lemma transcribe_audio_write_fails:
  assumes "is_wav file" and "get_or_load_model en m w = (Inr h, w1)"
    and "read_result file = Inr c"
    and "tmp_create_error en (fresh_path (files w1)) = None"
    and "tmp_write_error en (fresh_path (files w1)) c = Some msg"
  shows "transcribe_audio en file m w =
     (Inl UnboundLocalError,
      w1\<lparr>files := (fresh_path (files w1), []) # files w1,
         trace := trace w1 @ [Read (filename file), Create (fresh_path (files w1))]\<rparr>)"
  using assms
  by (simp add: transcribe_audio_def transcribe_try_def transcribe_finally_def
        read_and_stage_write_fails)

lemma transcribe_audio_not_staged:
  assumes "is_wav file" and "get_or_load_model en m w = (Inr h, w1)"
    and "read_result file = Inl msg \<or>
         (\<exists>c. read_result file = Inr c \<and> tmp_create_error en (fresh_path (files w1)) = Some msg)"
  shows "transcribe_audio en file m w =
     (Inl (HTTPException 500 (''Failed to transcribe audio: '' @ msg)),
      w1\<lparr>trace := trace w1 @ [Read (filename file)]\<rparr>)"
  using assms
  by (auto simp: transcribe_audio_def transcribe_try_def transcribe_finally_def
        read_and_stage_read_fails read_and_stage_create_fails)

text \<open>
  One iteration of the batch loop once the upload is staged: \<^verbatim>\<open>os.unlink\<close> is called only
  when the engine returned; when the engine raises, the staged file stays on storage.
\<close>

lemma batch_item_staged:
  assumes valid: "is_wav file"
    and content: "read_result file = Inr c"
    and created: "tmp_create_error en (fresh_path (files w)) = None"
    and written: "tmp_write_error en (fresh_path (files w)) c = None"
  shows "batch_item en h m file w =
     (case asr_call en h (fresh_path (files w)) c of
        Inl msg \<Rightarrow>
          ([error_entry file msg],
           w\<lparr>files := (fresh_path (files w), c) # files w,
             trace := trace w @
               [Read (filename file), Create (fresh_path (files w)),
                Invoke h (fresh_path (files w))]\<rparr>)
      | Inr result \<Rightarrow>
          (success_entry file (normalize_result en result) m #
             (case unlink_error en (fresh_path (files w)) of
                None \<Rightarrow> []
              | Some msg \<Rightarrow> [error_entry file msg]),
           w\<lparr>files := (if unlink_error en (fresh_path (files w)) = None then files w
                         else (fresh_path (files w), c) # files w),
             trace := trace w @
               [Read (filename file), Create (fresh_path (files w)),
                Invoke h (fresh_path (files w)), Unlink (fresh_path (files w))]\<rparr>))"
  by (simp add: batch_item_def batch_try_def valid read_and_stage_ok [OF content created written]
        record_event_def os_unlink_def Let_def filter_fresh_path
        split: sum.splits option.splits)

lemma batch_item_read_fails:
  "is_wav file \<Longrightarrow> read_result file = Inl msg \<Longrightarrow>
   batch_item en h m file w =
     ([error_entry file msg], w\<lparr>trace := trace w @ [Read (filename file)]\<rparr>)"
  by (simp add: batch_item_def batch_try_def read_and_stage_read_fails)

lemma batch_item_create_fails:
  "is_wav file \<Longrightarrow> read_result file = Inr c \<Longrightarrow>
   tmp_create_error en (fresh_path (files w)) = Some msg \<Longrightarrow>
   batch_item en h m file w =
     ([error_entry file msg], w\<lparr>trace := trace w @ [Read (filename file)]\<rparr>)"
  by (simp add: batch_item_def batch_try_def read_and_stage_create_fails)

lemma batch_item_write_fails:
  "is_wav file \<Longrightarrow> read_result file = Inr c \<Longrightarrow>
   tmp_create_error en (fresh_path (files w)) = None \<Longrightarrow>
   tmp_write_error en (fresh_path (files w)) c = Some msg \<Longrightarrow>
   batch_item en h m file w =
     ([error_entry file msg],
      w\<lparr>files := (fresh_path (files w), []) # files w,
        trace := trace w @ [Read (filename file), Create (fresh_path (files w))]\<rparr>)"
  by (simp add: batch_item_def batch_try_def read_and_stage_write_fails)

text \<open>
  Claim C5. In the batch endpoint the failure of one upload never ends the loop and never
  raises: an upload at any place of the sequence is processed in the state the uploads
  before it left, whatever they did, and the uploads after it are processed in the state
  it leaves. Its iteration does exactly this, by what fails:
  validation, the name does not end in \<^verbatim>\<open>.wav\<close>: the entry of the validation failure,
  and nothing is read, staged or invoked;
  reading, or creating the temporary file: an error entry with the message of the
  exception, and no file;
  writing the temporary file: an error entry with the message, the created file staying;
  transcription, the engine raises: an error entry with the message, the staged file
  staying;
  nothing, the engine returns: the success entry with the normalized text, then
  \<^verbatim>\<open>os.unlink\<close>, whose failure adds an error entry.
  It records at least one entry, each with the name of the upload; an entry of status
  \<^verbatim>\<open>error\<close> has a message and no \<^verbatim>\<open>text\<close> field. Once \<open>get_or_load_model\<close> has given
  the handle, the endpoint returns its report, whose entries are those of the loop.
\<close>

theorem batch_failure_is_isolated:
  "batch_loop en h m (xs @ file # ys) w =
     (case batch_loop en h m xs w of
        (r1, w1) \<Rightarrow>
          (case batch_item en h m file w1 of
             (r2, w2) \<Rightarrow>
               (case batch_loop en h m ys w2 of
                  (r3, w3) \<Rightarrow> (r1 @ r2 @ r3, w3)))) \<and>
   (\<not> is_wav file \<longrightarrow> batch_item en h m file w = ([validation_entry file], w)) \<and>
   (is_wav file \<and> read_result file = Inl msg \<longrightarrow>
      batch_item en h m file w =
        ([error_entry file msg], w\<lparr>trace := trace w @ [Read (filename file)]\<rparr>)) \<and>
   (is_wav file \<and> read_result file = Inr c \<and>
    tmp_create_error en (fresh_path (files w)) = Some msg \<longrightarrow>
      batch_item en h m file w =
        ([error_entry file msg], w\<lparr>trace := trace w @ [Read (filename file)]\<rparr>)) \<and>
   (is_wav file \<and> read_result file = Inr c \<and>
    tmp_create_error en (fresh_path (files w)) = None \<and>
    tmp_write_error en (fresh_path (files w)) c = Some msg \<longrightarrow>
      batch_item en h m file w =
        ([error_entry file msg],
         w\<lparr>files := (fresh_path (files w), []) # files w,
           trace := trace w @ [Read (filename file), Create (fresh_path (files w))]\<rparr>)) \<and>
   (is_wav file \<and> read_result file = Inr c \<and>
    tmp_create_error en (fresh_path (files w)) = None \<and>
    tmp_write_error en (fresh_path (files w)) c = None \<and>
    asr_call en h (fresh_path (files w)) c = Inl msg \<longrightarrow>
      batch_item en h m file w =
        ([error_entry file msg],
         w\<lparr>files := (fresh_path (files w), c) # files w,
           trace := trace w @
             [Read (filename file), Create (fresh_path (files w)),
              Invoke h (fresh_path (files w))]\<rparr>)) \<and>
   (is_wav file \<and> read_result file = Inr c \<and>
    tmp_create_error en (fresh_path (files w)) = None \<and>
    tmp_write_error en (fresh_path (files w)) c = None \<and>
    asr_call en h (fresh_path (files w)) c = Inr result \<longrightarrow>
      batch_item en h m file w =
        (success_entry file (normalize_result en result) m #
           (case unlink_error en (fresh_path (files w)) of
              None \<Rightarrow> []
            | Some msg \<Rightarrow> [error_entry file msg]),
         w\<lparr>files := (if unlink_error en (fresh_path (files w)) = None then files w
                       else (fresh_path (files w), c) # files w),
           trace := trace w @
             [Read (filename file), Create (fresh_path (files w)),
              Invoke h (fresh_path (files w)), Unlink (fresh_path (files w))]\<rparr>)) \<and>
   fst (batch_item en h m file w) \<noteq> [] \<and>
   (\<forall>e \<in> set (fst (batch_item en h m file w)).
      map_of e ''filename'' = Some (PStr (filename file)) \<and>
      (map_of e ''status'' = Some (PStr ''success'') \<or>
       map_of e ''status'' = Some (PStr ''error'')) \<and>
      (map_of e ''status'' = Some (PStr ''error'') \<longrightarrow>
         (\<exists>msg. map_of e ''message'' = Some (PStr msg)) \<and> map_of e ''text'' = None)) \<and>
   map_of (validation_entry file) ''status'' = Some (PStr ''error'') \<and>
   map_of (error_entry file msg) ''status'' = Some (PStr ''error'') \<and>
   map_of (error_entry file msg) ''message'' = Some (PStr msg) \<and>
   (get_or_load_model en m w0 = (Inr h, w') \<longrightarrow>
      transcribe_batch en uploads m w0 =
        (Inr \<lparr>rep_results = fst (batch_loop en h m uploads w'),
              rep_total = length uploads,
              rep_model = model_value m,
              rep_status = ''completed''\<rparr>,
         snd (batch_loop en h m uploads w')))"
proof (intro conjI impI)
  show "batch_loop en h m (xs @ file # ys) w =
     (case batch_loop en h m xs w of
        (r1, w1) \<Rightarrow>
          (case batch_item en h m file w1 of
             (r2, w2) \<Rightarrow>
               (case batch_loop en h m ys w2 of
                  (r3, w3) \<Rightarrow> (r1 @ r2 @ r3, w3))))"
    by (simp add: batch_loop_append split: prod.splits)
  show "fst (batch_item en h m file w) \<noteq> []"
    using batch_item_shapes [of en h m "file" w] by auto
  show "\<forall>e \<in> set (fst (batch_item en h m file w)).
      map_of e ''filename'' = Some (PStr (filename file)) \<and>
      (map_of e ''status'' = Some (PStr ''success'') \<or>
       map_of e ''status'' = Some (PStr ''error'')) \<and>
      (map_of e ''status'' = Some (PStr ''error'') \<longrightarrow>
         (\<exists>msg. map_of e ''message'' = Some (PStr msg)) \<and> map_of e ''text'' = None)"
    using batch_item_shapes [of en h m "file" w] by (auto simp: entry_fields)
  show "map_of (validation_entry file) ''status'' = Some (PStr ''error'')"
    and "map_of (error_entry file msg) ''status'' = Some (PStr ''error'')"
    and "map_of (error_entry file msg) ''message'' = Some (PStr msg)"
    by (simp_all add: entry_fields)
next
  assume "\<not> is_wav file"
  then show "batch_item en h m file w = ([validation_entry file], w)"
    by (rule batch_item_invalid)
next
  assume "is_wav file \<and> read_result file = Inl msg"
  then show "batch_item en h m file w =
      ([error_entry file msg], w\<lparr>trace := trace w @ [Read (filename file)]\<rparr>)"
    by (simp add: batch_item_read_fails)
next
  assume "is_wav file \<and> read_result file = Inr c \<and>
    tmp_create_error en (fresh_path (files w)) = Some msg"
  then show "batch_item en h m file w =
      ([error_entry file msg], w\<lparr>trace := trace w @ [Read (filename file)]\<rparr>)"
    by (simp add: batch_item_create_fails)
next
  assume "is_wav file \<and> read_result file = Inr c \<and>
    tmp_create_error en (fresh_path (files w)) = None \<and>
    tmp_write_error en (fresh_path (files w)) c = Some msg"
  then show "batch_item en h m file w =
      ([error_entry file msg],
       w\<lparr>files := (fresh_path (files w), []) # files w,
         trace := trace w @ [Read (filename file), Create (fresh_path (files w))]\<rparr>)"
    by (simp add: batch_item_write_fails)
next
  assume "is_wav file \<and> read_result file = Inr c \<and>
    tmp_create_error en (fresh_path (files w)) = None \<and>
    tmp_write_error en (fresh_path (files w)) c = None \<and>
    asr_call en h (fresh_path (files w)) c = Inl msg"
  then show "batch_item en h m file w =
      ([error_entry file msg],
       w\<lparr>files := (fresh_path (files w), c) # files w,
         trace := trace w @
           [Read (filename file), Create (fresh_path (files w)),
            Invoke h (fresh_path (files w))]\<rparr>)"
    by (simp add: batch_item_staged)
next
  assume "is_wav file \<and> read_result file = Inr c \<and>
    tmp_create_error en (fresh_path (files w)) = None \<and>
    tmp_write_error en (fresh_path (files w)) c = None \<and>
    asr_call en h (fresh_path (files w)) c = Inr result"
  then show "batch_item en h m file w =
      (success_entry file (normalize_result en result) m #
         (case unlink_error en (fresh_path (files w)) of
            None \<Rightarrow> []
          | Some msg \<Rightarrow> [error_entry file msg]),
       w\<lparr>files := (if unlink_error en (fresh_path (files w)) = None then files w
                     else (fresh_path (files w), c) # files w),
         trace := trace w @
           [Read (filename file), Create (fresh_path (files w)),
            Invoke h (fresh_path (files w)), Unlink (fresh_path (files w))]\<rparr>)"
    by (simp add: batch_item_staged)
next
  assume "get_or_load_model en m w0 = (Inr h, w')"
  then show "transcribe_batch en uploads m w0 =
        (Inr \<lparr>rep_results = fst (batch_loop en h m uploads w'),
              rep_total = length uploads,
              rep_model = model_value m,
              rep_status = ''completed''\<rparr>,
         snd (batch_loop en h m uploads w'))"
    by (simp add: transcribe_batch_def split: prod.splits)
qed

lemma faulty_fields:
  "tmp_create_error faulty_env p = None"
  "tmp_write_error faulty_env p content =
     (if content = ''FULL'' then Some ''No space left on device'' else None)"
  "asr_call faulty_env h p content =
     (if content = ''NOISE'' then Inl ''decode error''
      else Inr (PDict [(''text'', PStr content)]))"
  "unlink_error faulty_env p = None"
  "pipeline faulty_env args = Inr 7"
  by (simp_all add: faulty_env_def stub_env_def)

lemma faulty_uploads:
  "is_wav unreadable_wav" "is_wav full_wav" "is_wav noise_wav"
  "read_result a_wav = Inr ''RIFF''" "read_result c_wav = Inr ''WAVE''"
  "read_result unreadable_wav = Inl ''connection reset''"
  "read_result full_wav = Inr ''FULL''" "read_result noise_wav = Inr ''NOISE''"
  by (simp_all add: is_wav_def endswith_def lower_char_def
        a_wav_def c_wav_def unreadable_wav_def full_wav_def noise_wav_def)

theorem batch_failure_is_isolated_witness:
  "\<not> is_wav clip_mp3 \<and>
   is_wav unreadable_wav \<and> read_result unreadable_wav = Inl ''connection reset'' \<and>
   is_wav full_wav \<and> read_result full_wav = Inr ''FULL'' \<and>
   tmp_write_error faulty_env 1 ''FULL'' = Some ''No space left on device'' \<and>
   is_wav noise_wav \<and> read_result noise_wav = Inr ''NOISE'' \<and>
   asr_call faulty_env 7 2 ''NOISE'' = Inl ''decode error'' \<and>
   get_or_load_model faulty_env TYPHOON_ISAN_WHISPER empty_world =
     (Inr 7,
      empty_world\<lparr>loaded_models := (loaded_models empty_world)(TYPHOON_ISAN_WHISPER \<mapsto> 7),
        trace := trace empty_world @ [Build (pipeline_args_for faulty_env TYPHOON_ISAN_WHISPER)]\<rparr>) \<and>
   fst (transcribe_batch faulty_env
          [a_wav, clip_mp3, unreadable_wav, full_wav, noise_wav, c_wav]
          TYPHOON_ISAN_WHISPER empty_world) =
     Inr \<lparr>rep_results =
            [success_entry a_wav (PStr ''RIFF'') TYPHOON_ISAN_WHISPER,
             validation_entry clip_mp3,
             error_entry unreadable_wav ''connection reset'',
             error_entry full_wav ''No space left on device'',
             error_entry noise_wav ''decode error'',
             success_entry c_wav (PStr ''WAVE'') TYPHOON_ISAN_WHISPER],
           rep_total = 6,
           rep_model = ''typhoon-isan-asr-whisper'',
           rep_status = ''completed''\<rparr> \<and>
   files (snd (transcribe_batch faulty_env
                 [a_wav, clip_mp3, unreadable_wav, full_wav, noise_wav, c_wav]
                 TYPHOON_ISAN_WHISPER empty_world)) = [(2, ''NOISE''), (1, [])] \<and>
   batch_item (stub_env\<lparr>tmp_create_error := (\<lambda>p. Some ''Too many open files'')\<rparr>)
     7 TYPHOON_ISAN_WHISPER a_wav empty_world =
     ([error_entry a_wav ''Too many open files''],
      empty_world\<lparr>trace := trace empty_world @ [Read (filename a_wav)]\<rparr>)"
proof -
  define w1 where "w1 =
    empty_world\<lparr>loaded_models := (loaded_models empty_world)(TYPHOON_ISAN_WHISPER \<mapsto> 7),
      trace := trace empty_world @ [Build (pipeline_args_for faulty_env TYPHOON_ISAN_WHISPER)]\<rparr>"
  have loaded: "get_or_load_model faulty_env TYPHOON_ISAN_WHISPER empty_world = (Inr 7, w1)"
    unfolding w1_def
    by (rule get_or_load_model_miss_ok) (simp_all add: empty_world_def faulty_fields)
  have start: "files w1 = []"
    by (simp add: w1_def empty_world_def)
  note isolated = batch_failure_is_isolated [of faulty_env 7 TYPHOON_ISAN_WHISPER]
  have paths: "fresh_path [] = 1" "fresh_path [(Suc 0, [])] = 2"
    "fresh_path [(2, ''NOISE''), (Suc 0, [])] = 3"
    by (simp_all add: fresh_path_def)
  obtain wa where item_a: "batch_item faulty_env 7 TYPHOON_ISAN_WHISPER a_wav w1 =
      ([success_entry a_wav (PStr ''RIFF'') TYPHOON_ISAN_WHISPER], wa)" and a: "files wa = []"
    using isolated [of _ a_wav _ w1 _ "''RIFF''" "PDict [(''text'', PStr ''RIFF'')]"]
    by (simp add: stub_is_wav faulty_uploads faulty_fields normalize_result_def start)
  have item_clip: "batch_item faulty_env 7 TYPHOON_ISAN_WHISPER clip_mp3 wa =
      ([validation_entry clip_mp3], wa)"
    using isolated [of _ clip_mp3 _ wa] by (simp add: stub_is_wav)
  obtain wb where item_b: "batch_item faulty_env 7 TYPHOON_ISAN_WHISPER unreadable_wav wa =
      ([error_entry unreadable_wav ''connection reset''], wb)" and b: "files wb = []"
    using isolated [of _ unreadable_wav _ wa "''connection reset''"]
    by (simp add: faulty_uploads a)
  obtain wd where item_d: "batch_item faulty_env 7 TYPHOON_ISAN_WHISPER full_wav wb =
      ([error_entry full_wav ''No space left on device''], wd)" and d: "files wd = [(1, [])]"
    using isolated [of _ full_wav _ wb "''No space left on device''" "''FULL''"]
    by (simp add: faulty_uploads faulty_fields b paths)
  obtain we where item_e: "batch_item faulty_env 7 TYPHOON_ISAN_WHISPER noise_wav wd =
      ([error_entry noise_wav ''decode error''], we)"
    and e: "files we = [(2, ''NOISE''), (1, [])]"
    using isolated [of _ noise_wav _ wd "''decode error''" "''NOISE''"]
    by (simp add: faulty_uploads faulty_fields d paths)
  obtain wc where item_c: "batch_item faulty_env 7 TYPHOON_ISAN_WHISPER c_wav we =
      ([success_entry c_wav (PStr ''WAVE'') TYPHOON_ISAN_WHISPER], wc)"
    and c: "files wc = [(2, ''NOISE''), (1, [])]"
    using isolated [of _ c_wav _ we _ "''WAVE''" "PDict [(''text'', PStr ''WAVE'')]"]
    by (simp add: stub_is_wav faulty_uploads faulty_fields normalize_result_def e)
  define ups where "ups = [a_wav, clip_mp3, unreadable_wav, full_wav, noise_wav, c_wav]"
  have loop: "batch_loop faulty_env 7 TYPHOON_ISAN_WHISPER ups w1 =
      ([success_entry a_wav (PStr ''RIFF'') TYPHOON_ISAN_WHISPER,
        validation_entry clip_mp3,
        error_entry unreadable_wav ''connection reset'',
        error_entry full_wav ''No space left on device'',
        error_entry noise_wav ''decode error'',
        success_entry c_wav (PStr ''WAVE'') TYPHOON_ISAN_WHISPER], wc)"
    by (simp add: ups_def item_a item_clip item_b item_d item_e item_c)
  have "transcribe_batch faulty_env ups TYPHOON_ISAN_WHISPER empty_world =
      (Inr \<lparr>rep_results = fst (batch_loop faulty_env 7 TYPHOON_ISAN_WHISPER ups w1),
             rep_total = length ups,
             rep_model = model_value TYPHOON_ISAN_WHISPER,
             rep_status = ''completed''\<rparr>,
       snd (batch_loop faulty_env 7 TYPHOON_ISAN_WHISPER ups w1))"
    using isolated [of "[]" a_wav "[]" w1 "[]" "[]" PNone empty_world w1 ups] loaded
    by blast
  then have report: "transcribe_batch faulty_env
      [a_wav, clip_mp3, unreadable_wav, full_wav, noise_wav, c_wav]
      TYPHOON_ISAN_WHISPER empty_world =
      (Inr \<lparr>rep_results =
              [success_entry a_wav (PStr ''RIFF'') TYPHOON_ISAN_WHISPER,
               validation_entry clip_mp3,
               error_entry unreadable_wav ''connection reset'',
               error_entry full_wav ''No space left on device'',
               error_entry noise_wav ''decode error'',
               success_entry c_wav (PStr ''WAVE'') TYPHOON_ISAN_WHISPER],
             rep_total = 6,
             rep_model = ''typhoon-isan-asr-whisper'',
             rep_status = ''completed''\<rparr>, wc)"
    unfolding loop by (simp add: ups_def)
  have no_file: "batch_item (stub_env\<lparr>tmp_create_error := (\<lambda>p. Some ''Too many open files'')\<rparr>)
      7 TYPHOON_ISAN_WHISPER a_wav empty_world =
      ([error_entry a_wav ''Too many open files''],
       empty_world\<lparr>trace := trace empty_world @ [Read (filename a_wav)]\<rparr>)"
    using batch_failure_is_isolated
      [of "stub_env\<lparr>tmp_create_error := (\<lambda>p. Some ''Too many open files'')\<rparr>"
          7 TYPHOON_ISAN_WHISPER _ a_wav _ empty_world "''Too many open files''" "''RIFF''"]
    by (simp add: stub_is_wav faulty_uploads)
  from loaded report c no_file show ?thesis
    unfolding w1_def by (simp add: stub_is_wav faulty_uploads faulty_fields)
qed



text \<open>
  Claim C2 fails in the batch endpoint, whose \<^verbatim>\<open>os.unlink\<close> is the last statement of
  the \<^verbatim>\<open>try\<close> and not in a \<^verbatim>\<open>finally\<close>. With an engine that raises on invocation, a
  batch of the single upload \<^verbatim>\<open>a.wav\<close> records the failure entry, never calls
  \<^verbatim>\<open>os.unlink\<close>, and leaves the staged file on storage; the single-file endpoint, on
  the same upload and engine, calls \<^verbatim>\<open>os.unlink\<close> and leaves no file.
\<close>

theorem batch_inference_failure_keeps_staged_file:
  "fst (transcribe_batch (stub_env\<lparr>asr_call := (\<lambda>h p content. Inl ''decode error'')\<rparr>)
          [a_wav] TYPHOON_ISAN_WHISPER empty_world) =
     Inr \<lparr>rep_results = [error_entry a_wav ''decode error''],
           rep_total = 1,
           rep_model = ''typhoon-isan-asr-whisper'',
           rep_status = ''completed''\<rparr> \<and>
   files (snd (transcribe_batch (stub_env\<lparr>asr_call := (\<lambda>h p content. Inl ''decode error'')\<rparr>)
                 [a_wav] TYPHOON_ISAN_WHISPER empty_world)) = [(1, ''RIFF'')] \<and>
   trace (snd (transcribe_batch (stub_env\<lparr>asr_call := (\<lambda>h p content. Inl ''decode error'')\<rparr>)
                 [a_wav] TYPHOON_ISAN_WHISPER empty_world)) =
     [Build (pipeline_args_for stub_env TYPHOON_ISAN_WHISPER),
      Read ''a.wav'', Create 1, Invoke 7 1] \<and>
   fst (transcribe_audio (stub_env\<lparr>asr_call := (\<lambda>h p content. Inl ''decode error'')\<rparr>)
          a_wav TYPHOON_ISAN_WHISPER empty_world) =
     Inl (HTTPException 500 ''Failed to transcribe audio: decode error'') \<and>
   files (snd (transcribe_audio (stub_env\<lparr>asr_call := (\<lambda>h p content. Inl ''decode error'')\<rparr>)
                 a_wav TYPHOON_ISAN_WHISPER empty_world)) = [] \<and>
   trace (snd (transcribe_audio (stub_env\<lparr>asr_call := (\<lambda>h p content. Inl ''decode error'')\<rparr>)
                 a_wav TYPHOON_ISAN_WHISPER empty_world)) =
     [Build (pipeline_args_for stub_env TYPHOON_ISAN_WHISPER),
      Read ''a.wav'', Create 1, Invoke 7 1, Unlink 1]"
proof -
  define en where "en = stub_env\<lparr>asr_call := (\<lambda>h p content. Inl ''decode error'')\<rparr>"
  define w1 where
    "w1 = empty_world\<lparr>loaded_models := (loaded_models empty_world)(TYPHOON_ISAN_WHISPER \<mapsto> 7),
       trace := trace empty_world @ [Build (pipeline_args_for en TYPHOON_ISAN_WHISPER)]\<rparr>"
  have args: "pipeline_args_for en m = pipeline_args_for stub_env m" for m
    by (simp add: pipeline_args_for_def en_def)
  have loaded: "get_or_load_model en TYPHOON_ISAN_WHISPER empty_world = (Inr 7, w1)"
    unfolding w1_def
    by (rule get_or_load_model_miss_ok) (simp_all add: empty_world_def en_def stub_env_def)
  have w1: "files w1 = []" "trace w1 = [Build (pipeline_args_for stub_env TYPHOON_ISAN_WHISPER)]"
    by (simp_all add: w1_def empty_world_def args)
  have path: "fresh_path [] = 1"
    by (simp add: fresh_path_def)
  have content: "read_result a_wav = Inr ''RIFF''" "filename a_wav = ''a.wav''"
    by (simp_all add: a_wav_def)
  have storage: "tmp_create_error en p = None" "tmp_write_error en p c = None"
    "unlink_error en p = None" for p c
    by (simp_all add: en_def stub_env_def)
  have engine: "asr_call en h p c = Inl ''decode error''" for h p c
    by (simp add: en_def)
  have item: "batch_item en 7 TYPHOON_ISAN_WHISPER a_wav w1 =
      ([error_entry a_wav ''decode error''],
       w1\<lparr>files := [(1, ''RIFF'')],
          trace := [Build (pipeline_args_for stub_env TYPHOON_ISAN_WHISPER),
                    Read ''a.wav'', Create 1, Invoke 7 1]\<rparr>)"
    using batch_item_staged [of a_wav "''RIFF''" en w1 7 TYPHOON_ISAN_WHISPER]
    by (simp add: stub_is_wav content storage engine w1 path)
  have single: "transcribe_audio en a_wav TYPHOON_ISAN_WHISPER empty_world =
      (Inl (HTTPException 500 ''Failed to transcribe audio: decode error''),
       w1\<lparr>files := [],
          trace := [Build (pipeline_args_for stub_env TYPHOON_ISAN_WHISPER),
                    Read ''a.wav'', Create 1, Invoke 7 1, Unlink 1]\<rparr>)"
    using transcribe_audio_staged
      [of a_wav en TYPHOON_ISAN_WHISPER empty_world 7 w1 "''RIFF''"]
    by (simp add: stub_is_wav loaded content storage engine w1 path)
  show ?thesis
    unfolding en_def [symmetric]
    by (simp add: transcribe_batch_def loaded item single)
qed

text \<open>
  Claim C6 fails in the batch endpoint when \<^verbatim>\<open>os.unlink\<close> raises, which the single-file
  endpoint expects and logs: the entry of the success is appended before the call, in the
  same \<^verbatim>\<open>try\<close>, so the handler appends a second entry for the same upload. A batch of
  the single upload \<^verbatim>\<open>a.wav\<close> then reports two entries and a total of one.
\<close>

theorem batch_unlink_failure_records_two_entries:
  "fst (transcribe_batch (stub_env\<lparr>unlink_error := (\<lambda>p. Some ''busy'')\<rparr>)
          [a_wav] TYPHOON_ISAN_WHISPER empty_world) =
     Inr \<lparr>rep_results =
            [success_entry a_wav (PStr ''RIFF'') TYPHOON_ISAN_WHISPER,
             error_entry a_wav ''busy''],
           rep_total = 1,
           rep_model = ''typhoon-isan-asr-whisper'',
           rep_status = ''completed''\<rparr>"
proof -
  define en where "en = stub_env\<lparr>unlink_error := (\<lambda>p. Some ''busy'')\<rparr>"
  define w1 where
    "w1 = empty_world\<lparr>loaded_models := (loaded_models empty_world)(TYPHOON_ISAN_WHISPER \<mapsto> 7),
       trace := trace empty_world @ [Build (pipeline_args_for en TYPHOON_ISAN_WHISPER)]\<rparr>"
  have loaded: "get_or_load_model en TYPHOON_ISAN_WHISPER empty_world = (Inr 7, w1)"
    unfolding w1_def
    by (rule get_or_load_model_miss_ok) (simp_all add: empty_world_def en_def stub_env_def)
  have content: "read_result a_wav = Inr ''RIFF''"
    by (simp add: a_wav_def)
  have storage: "tmp_create_error en p = None" "tmp_write_error en p c = None"
    "unlink_error en p = Some ''busy''" for p c
    by (simp_all add: en_def stub_env_def)
  have engine: "asr_call en h p c = Inr (PDict [(''text'', PStr c)])" for h p c
    by (simp add: en_def stub_env_def)
  have item: "fst (batch_item en 7 TYPHOON_ISAN_WHISPER a_wav w1) =
      [success_entry a_wav (PStr ''RIFF'') TYPHOON_ISAN_WHISPER, error_entry a_wav ''busy'']"
    using batch_item_staged [of a_wav "''RIFF''" en w1 7 TYPHOON_ISAN_WHISPER]
    by (simp add: stub_is_wav content storage engine normalize_result_def)
  show ?thesis
    unfolding en_def [symmetric]
    by (simp add: transcribe_batch_def loaded item split_beta)
qed

text \<open>
  What the batch report keeps in every case: its total is the number of uploads, its
  status is \<^verbatim>\<open>completed\<close>, and it has at least as many entries as there are uploads.
  When \<^verbatim>\<open>os.unlink\<close> never raises, it has one entry for each upload, in the order of
  the uploads, each with the name of its upload.
\<close>

lemma batch_item_one_entry:
  assumes "\<forall>p. unlink_error en p = None"
  shows "\<exists>e. fst (batch_item en h m file w) = [e] \<and>
     map_of e ''filename'' = Some (PStr (filename file))"
proof -
  obtain appended exc w1 where run: "batch_try en h m file w = (appended, exc, w1)"
    by (cases "batch_try en h m file w") auto
  then have "(appended = [validation_entry file] \<and> exc = None) \<or>
      (appended = [] \<and> exc \<noteq> None) \<or>
      (\<exists>t. appended = [success_entry file t m] \<and> exc = None)"
    using assms
    by (auto simp: batch_try_def os_unlink_def Let_def
          split: if_splits sum.splits prod.splits)
  then show ?thesis
    by (cases exc) (auto simp: batch_item_def run entry_fields)
qed

lemma batch_loop_one_entry_each:
  assumes "\<forall>p. unlink_error en p = None"
  shows "map (\<lambda>e. map_of e ''filename'') (fst (batch_loop en h m uploads w)) =
     map (\<lambda>f. Some (PStr (filename f))) uploads"
proof (induction uploads arbitrary: w)
  case Nil
  show ?case by simp
next
  case (Cons f fs)
  obtain e where "fst (batch_item en h m f w) = [e]"
    and "map_of e ''filename'' = Some (PStr (filename f))"
    using batch_item_one_entry [OF assms, of h m f w] by auto
  then show ?case
    using Cons.IH [of "snd (batch_item en h m f w)"] by (simp add: split_beta)
qed

lemma batch_loop_at_least_one_entry_each:
  "length uploads \<le> length (fst (batch_loop en h m uploads w))"
proof (induction uploads arbitrary: w)
  case Nil
  show ?case by simp
next
  case (Cons f fs)
  have "fst (batch_item en h m f w) \<noteq> []"
    using batch_item_shapes [of en h m f w] by auto
  then have "1 \<le> length (fst (batch_item en h m f w))"
    by (cases "fst (batch_item en h m f w)") simp_all
  with Cons.IH [of "snd (batch_item en h m f w)"] show ?case
    by (simp add: split_beta)
qed

lemma transcribe_batch_report:
  assumes "transcribe_batch en uploads m w = (Inr rep, w2)"
  shows "rep_total rep = length uploads \<and> rep_status rep = ''completed'' \<and>
     rep_model rep = model_value m \<and> length uploads \<le> length (rep_results rep) \<and>
     ((\<forall>p. unlink_error en p = None) \<longrightarrow>
        map (\<lambda>e. map_of e ''filename'') (rep_results rep) =
          map (\<lambda>f. Some (PStr (filename f))) uploads)"
proof -
  from assms obtain h w1 where loaded: "get_or_load_model en m w = (Inr h, w1)"
    and rep: "rep = \<lparr>rep_results = fst (batch_loop en h m uploads w1),
        rep_total = length uploads,
        rep_model = model_value m,
        rep_status = ''completed''\<rparr>"
    by (auto simp: transcribe_batch_def split: prod.splits sum.splits)
  show ?thesis
    by (simp add: rep batch_loop_at_least_one_entry_each batch_loop_one_entry_each)
qed

section \<open>Properties of concurrent requests\<close>

lemma read_and_stage_keeps:
  "read_and_stage en file w = (r, loc, w1) \<Longrightarrow>
   loaded_models w1 = loaded_models w \<and>
   filter is_Build (trace w1) = filter is_Build (trace w)"
  by (auto simp: read_and_stage_def record_event_def Let_def split: sum.splits option.splits)

lemma os_unlink_keeps:
  "loaded_models (snd (os_unlink en p w)) = loaded_models w \<and>
   filter is_Build (trace (snd (os_unlink en p w))) = filter is_Build (trace w)"
  by (simp add: os_unlink_def record_event_def Let_def split: option.splits)

lemma transcribe_try_keeps:
  assumes "transcribe_try en h m file w = (r, loc, w1)"
  shows "loaded_models w1 = loaded_models w \<and>
    filter is_Build (trace w1) = filter is_Build (trace w)"
proof -
  obtain r0 loc0 w0 where staged: "read_and_stage en file w = (r0, loc0, w0)"
    by (cases "read_and_stage en file w") auto
  from read_and_stage_keeps [OF staged] assms show ?thesis
    by (auto simp: transcribe_try_def staged record_event_def Let_def
          split: sum.splits pyval.splits prod.splits)
qed

lemma transcribe_finally_keeps:
  assumes "transcribe_finally en loc w = (e, w1)"
  shows "loaded_models w1 = loaded_models w \<and>
    filter is_Build (trace w1) = filter is_Build (trace w)"
  using assms os_unlink_keeps [of en _ w]
  by (auto simp: transcribe_finally_def split: temp_locals.splits if_splits)

lemma single_resume_keeps:
  assumes "single_resume en h m file w = (r, w1)"
  shows "loaded_models w1 = loaded_models w \<and>
    filter is_Build (trace w1) = filter is_Build (trace w)"
proof -
  obtain r0 loc w0 where body: "transcribe_try en h m file w = (r0, loc, w0)"
    by (cases "transcribe_try en h m file w") auto
  obtain e w2 where cleanup: "transcribe_finally en loc w0 = (e, w2)"
    by (cases "transcribe_finally en loc w0") auto
  from assms have "w1 = w2"
    by (auto simp: single_resume_def body cleanup Let_def split: option.splits)
  with transcribe_try_keeps [OF body] transcribe_finally_keeps [OF cleanup] show ?thesis
    by simp
qed

lemma batch_item_keeps:
  assumes "batch_item en h m file w = (appended, w1)"
  shows "loaded_models w1 = loaded_models w \<and>
    filter is_Build (trace w1) = filter is_Build (trace w)"
  using assms
  by (auto simp: batch_item_def batch_try_def read_and_stage_def os_unlink_def
        record_event_def Let_def
        split: if_splits sum.splits prod.splits option.splits)

lemma thread_ok_mono:
  "thread_ok m h w th \<Longrightarrow> (loaded_models w m = Some h \<Longrightarrow> loaded_models w1 m = Some h) \<Longrightarrow>
   thread_ok m h w1 th"
  by (cases th, cases "fst th") auto

lemma thread_ok_batch_suspend:
  "thread_ok m h w (batch_suspend asr_model model n results uploads, seen) =
     (seen = Some (Inr h) \<and> loaded_models w m = Some h \<and>
      (asr_model = h \<or> (\<exists>r. batch_suspend asr_model model n results uploads = Finished r)))"
  by (auto simp: batch_suspend_def split: prod.splits list.splits)

lemma cache_ok_keeps:
  "cache_ok m h args base w \<Longrightarrow> loaded_models w1 = loaded_models w \<Longrightarrow>
   filter is_Build (trace w1) = filter is_Build (trace w) \<Longrightarrow> cache_ok m h args base w1"
  by (auto simp: cache_ok_def split: option.splits)

lemma get_or_load_model_cache_ok:
  assumes build: "pipeline en (pipeline_args_for en m) = Inr h"
    and ok: "cache_ok m h (pipeline_args_for en m) base w"
  shows "\<exists>w1. get_or_load_model en m w = (Inr h, w1) \<and> loaded_models w1 m = Some h \<and>
    cache_ok m h (pipeline_args_for en m) base w1"
proof (cases "loaded_models w m")
  case None
  with ok have "filter is_Build (trace w) = base"
    by (simp add: cache_ok_def)
  with None build show ?thesis
    by (simp add: get_or_load_model_miss_ok cache_ok_def)
next
  case (Some h1)
  with ok have "h1 = h"
    by (simp add: cache_ok_def)
  with Some ok show ?thesis
    by (simp add: get_or_load_model_hit)
qed

lemma thread_step_inv:
  assumes build: "pipeline en (pipeline_args_for en m) = Inr h"
    and ok: "cache_ok m h (pipeline_args_for en m) base w"
    and th: "thread_ok m h w th"
    and step: "thread_step en th w = (th1, w1)"
  shows "cache_ok m h (pipeline_args_for en m) base w1 \<and> thread_ok m h w1 th1 \<and>
    started th1 \<and> (loaded_models w m = Some h \<longrightarrow> loaded_models w1 m = Some h)"
proof -
  obtain t seen where pair: "th = (t, seen)"
    by (cases th) auto
  from get_or_load_model_cache_ok [OF build ok]
  obtain wl where load: "get_or_load_model en m w = (Inr h, wl)"
    and stored: "loaded_models wl m = Some h"
    and okl: "cache_ok m h (pipeline_args_for en m) base wl"
    by auto
  show ?thesis
  proof (cases t)
    case (Single_Start f model)
    with th pair have "is_wav f" "model = m"
      by simp_all
    with step pair Single_Start load stored okl show ?thesis
      by (auto simp: thread_step_def started_def)
  next
    case (Single_Reading asr_model f model)
    obtain r w2 where run: "single_resume en asr_model model f w = (r, w2)"
      by (cases "single_resume en asr_model model f w") auto
    from single_resume_keeps [OF run] th pair Single_Reading step run ok show ?thesis
      by (auto simp: thread_step_def started_def cache_ok_keeps)
  next
    case (Batch_Start uploads model)
    with th pair have "model = m"
      by simp
    with step pair Batch_Start load stored okl show ?thesis
      by (auto simp: thread_step_def started_def thread_ok_batch_suspend batch_suspend_def
            split: prod.splits list.splits)
  next
    case (Batch_Reading asr_model model n results f rest)
    obtain appended w2 where run: "batch_item en asr_model model f w = (appended, w2)"
      by (cases "batch_item en asr_model model f w") auto
    from batch_item_keeps [OF run] th pair Batch_Reading step run ok show ?thesis
      by (auto simp: thread_step_def started_def cache_ok_keeps thread_ok_batch_suspend
            batch_suspend_def split: prod.splits list.splits)
  next
    case (Finished r)
    with th pair step ok show ?thesis
      by (auto simp: thread_step_def started_def)
  qed
qed

lemma run_schedule_inv:
  assumes build: "pipeline en (pipeline_args_for en m) = Inr h"
  shows "cache_ok m h (pipeline_args_for en m) base w \<Longrightarrow> thread_ok m h w a \<Longrightarrow>
    thread_ok m h w b \<Longrightarrow> run_schedule en sched a b w = (a1, b1, w1) \<Longrightarrow>
    cache_ok m h (pipeline_args_for en m) base w1 \<and> thread_ok m h w1 a1 \<and> thread_ok m h w1 b1 \<and>
    (True \<in> set sched \<or> started a \<longrightarrow> started a1) \<and>
    (False \<in> set sched \<or> started b \<longrightarrow> started b1)"
proof (induction sched arbitrary: a b w)
  case Nil
  then show ?case by simp
next
  case (Cons first sched)
  show ?case
  proof (cases first)
    case True
    obtain a2 w2 where step: "thread_step en a w = (a2, w2)"
      by (cases "thread_step en a w") auto
    from thread_step_inv [OF build Cons.prems(1) Cons.prems(2) step]
    have ok2: "cache_ok m h (pipeline_args_for en m) base w2"
      and a2: "thread_ok m h w2 a2" and sa: "started a2"
      and mono: "loaded_models w m = Some h \<longrightarrow> loaded_models w2 m = Some h"
      by simp_all
    from Cons.prems(3) mono have b2: "thread_ok m h w2 b"
      by (auto intro: thread_ok_mono)
    from Cons.prems(4) True step have "run_schedule en sched a2 b w2 = (a1, b1, w1)"
      by simp
    from Cons.IH [OF ok2 a2 b2 this] sa True show ?thesis
      by auto
  next
    case False
    obtain b2 w2 where step: "thread_step en b w = (b2, w2)"
      by (cases "thread_step en b w") auto
    from thread_step_inv [OF build Cons.prems(1) Cons.prems(3) step]
    have ok2: "cache_ok m h (pipeline_args_for en m) base w2"
      and b2: "thread_ok m h w2 b2" and sb: "started b2"
      and mono: "loaded_models w m = Some h \<longrightarrow> loaded_models w2 m = Some h"
      by simp_all
    from Cons.prems(2) mono have a2: "thread_ok m h w2 a"
      by (auto intro: thread_ok_mono)
    from Cons.prems(4) False step have "run_schedule en sched a b2 w2 = (a1, b1, w1)"
      by simp
    from Cons.IH [OF ok2 a2 b2 this] sb False show ?thesis
      by auto
  qed
qed

lemma thread_ok_started:
  "thread_ok m h w (t, seen) \<Longrightarrow> started (t, seen) \<Longrightarrow>
   seen = Some (Inr h) \<and> loaded_models w m = Some h"
  by (cases t) (simp_all add: started_def)

lemma first_call_thread_ok: "first_call_for m t \<Longrightarrow> thread_ok m h w (t, None)"
  by (cases t) simp_all

text \<open>
  Claim C8. Two requests that both make their first call of \<open>get_or_load_model\<close> for the
  same model, which has no entry and for which the engine gives a handle, run on the
  event loop in any interleaving of their segments. Whatever the schedule, between
  segments the cache holds no entry for the model and the engine was not called, or it
  holds the engine's handle and the engine was called once. Once both requests have run
  their first segment, the engine has been called exactly once, both calls of
  \<open>get_or_load_model\<close> returned the same handle, and that handle is the entry of the cache.
\<close>

theorem concurrent_first_calls_load_once:
  assumes "loaded_models w m = None"
    and "pipeline en (pipeline_args_for en m) = Inr h"
    and "first_call_for m a" and "first_call_for m b"
  shows "case run_schedule en sched (a, None) (b, None) w of
      ((ta, seen_a), (tb, seen_b), w1) \<Rightarrow>
        cache_ok m h (pipeline_args_for en m) (filter is_Build (trace w)) w1 \<and>
        (True \<in> set sched \<and> False \<in> set sched \<longrightarrow>
           seen_a = Some (Inr h) \<and> seen_b = Some (Inr h) \<and>
           loaded_models w1 m = Some h \<and>
           filter is_Build (trace w1) =
             filter is_Build (trace w) @ [Build (pipeline_args_for en m)])"
proof -
  obtain ta seen_a tb seen_b w1
    where run: "run_schedule en sched (a, None) (b, None) w = ((ta, seen_a), (tb, seen_b), w1)"
    by (cases "run_schedule en sched (a, None) (b, None) w") auto
  have ok: "cache_ok m h (pipeline_args_for en m) (filter is_Build (trace w)) w"
    using assms(1) by (simp add: cache_ok_def)
  have a: "thread_ok m h w (a, None)" and b: "thread_ok m h w (b, None)"
    using assms(3,4) by (simp_all add: first_call_thread_ok)
  from run_schedule_inv [OF assms(2) ok a b run]
  have ok1: "cache_ok m h (pipeline_args_for en m) (filter is_Build (trace w)) w1"
    and a1: "thread_ok m h w1 (ta, seen_a)" and b1: "thread_ok m h w1 (tb, seen_b)"
    and sa: "True \<in> set sched \<longrightarrow> started (ta, seen_a)"
    and sb: "False \<in> set sched \<longrightarrow> started (tb, seen_b)"
    by simp_all
  have "seen_a = Some (Inr h) \<and> seen_b = Some (Inr h) \<and> loaded_models w1 m = Some h \<and>
      filter is_Build (trace w1) = filter is_Build (trace w) @ [Build (pipeline_args_for en m)]"
    if both: "True \<in> set sched \<and> False \<in> set sched"
  proof -
    from both sa sb thread_ok_started [OF a1] thread_ok_started [OF b1]
    have seen: "seen_a = Some (Inr h)" "seen_b = Some (Inr h)" "loaded_models w1 m = Some h"
      by simp_all
    with ok1 show ?thesis
      by (simp add: cache_ok_def)
  qed
  with ok1 show ?thesis
    by (simp add: run)
qed

theorem concurrent_first_calls_load_once_witness:
  "loaded_models empty_world TYPHOON_ISAN_WHISPER = None \<and>
   pipeline stub_env (pipeline_args_for stub_env TYPHOON_ISAN_WHISPER) = Inr 7 \<and>
   first_call_for TYPHOON_ISAN_WHISPER (Single_Start a_wav TYPHOON_ISAN_WHISPER) \<and>
   first_call_for TYPHOON_ISAN_WHISPER (Batch_Start [clip_mp3, c_wav] TYPHOON_ISAN_WHISPER) \<and>
   snd (fst (run_schedule stub_env [False, True, True, False]
               (Single_Start a_wav TYPHOON_ISAN_WHISPER, None)
               (Batch_Start [clip_mp3, c_wav] TYPHOON_ISAN_WHISPER, None) empty_world)) =
     Some (Inr 7) \<and>
   snd (fst (snd (run_schedule stub_env [False, True, True, False]
                    (Single_Start a_wav TYPHOON_ISAN_WHISPER, None)
                    (Batch_Start [clip_mp3, c_wav] TYPHOON_ISAN_WHISPER, None) empty_world))) =
     Some (Inr 7) \<and>
   loaded_models
     (snd (snd (run_schedule stub_env [False, True, True, False]
                  (Single_Start a_wav TYPHOON_ISAN_WHISPER, None)
                  (Batch_Start [clip_mp3, c_wav] TYPHOON_ISAN_WHISPER, None) empty_world)))
     TYPHOON_ISAN_WHISPER = Some 7 \<and>
   filter is_Build
     (trace (snd (snd (run_schedule stub_env [False, True, True, False]
                         (Single_Start a_wav TYPHOON_ISAN_WHISPER, None)
                         (Batch_Start [clip_mp3, c_wav] TYPHOON_ISAN_WHISPER, None)
                         empty_world)))) =
     [Build (pipeline_args_for stub_env TYPHOON_ISAN_WHISPER)]"
proof -
  define sched where "sched = [False, True, True, False]"
  have miss: "loaded_models empty_world TYPHOON_ISAN_WHISPER = None"
    by (simp add: empty_world_def)
  have built: "pipeline stub_env (pipeline_args_for stub_env TYPHOON_ISAN_WHISPER) = Inr 7"
    by (rule stub_pipeline)
  have single: "first_call_for TYPHOON_ISAN_WHISPER (Single_Start a_wav TYPHOON_ISAN_WHISPER)"
    by (simp add: stub_is_wav)
  have batch: "first_call_for TYPHOON_ISAN_WHISPER
      (Batch_Start [clip_mp3, c_wav] TYPHOON_ISAN_WHISPER)"
    by simp
  have both: "True \<in> set sched \<and> False \<in> set sched"
    by (simp add: sched_def)
  have before: "filter is_Build (trace empty_world) = []"
    by (simp add: empty_world_def)
  from concurrent_first_calls_load_once [OF miss built single batch, of sched] both before
  have "snd (fst (run_schedule stub_env sched
               (Single_Start a_wav TYPHOON_ISAN_WHISPER, None)
               (Batch_Start [clip_mp3, c_wav] TYPHOON_ISAN_WHISPER, None) empty_world)) =
      Some (Inr 7) \<and>
    snd (fst (snd (run_schedule stub_env sched
                    (Single_Start a_wav TYPHOON_ISAN_WHISPER, None)
                    (Batch_Start [clip_mp3, c_wav] TYPHOON_ISAN_WHISPER, None) empty_world))) =
      Some (Inr 7) \<and>
    loaded_models
      (snd (snd (run_schedule stub_env sched
                  (Single_Start a_wav TYPHOON_ISAN_WHISPER, None)
                  (Batch_Start [clip_mp3, c_wav] TYPHOON_ISAN_WHISPER, None) empty_world)))
      TYPHOON_ISAN_WHISPER = Some 7 \<and>
    filter is_Build
      (trace (snd (snd (run_schedule stub_env sched
                         (Single_Start a_wav TYPHOON_ISAN_WHISPER, None)
                         (Batch_Start [clip_mp3, c_wav] TYPHOON_ISAN_WHISPER, None)
                         empty_world)))) =
      [Build (pipeline_args_for stub_env TYPHOON_ISAN_WHISPER)]"
    by (simp add: split_beta)
  with miss built single batch show ?thesis
    unfolding sched_def by blast
qed

text \<open>
  The segments are those of the handlers: a task run alone to its end gives the result
  and the state of \<open>transcribe_audio\<close>, or of \<open>transcribe_batch\<close>.
\<close>

lemma run_alone_Finished: "run_alone en n (Finished r) w = (Finished r, w)"
  by (induction n) simp_all

lemma single_alone:
  "run_alone en (Suc (Suc 0)) (Single_Start file m) w =
     (Finished (Response (fst (transcribe_audio en file m w))),
      snd (transcribe_audio en file m w))"
  by (simp add: transcribe_audio_def single_resume_def Let_def
        split: prod.splits sum.splits option.splits)

lemma batch_suspend_alone:
  "length uploads \<le> n \<Longrightarrow>
   run_alone en n (batch_suspend h m k results uploads) w =
     (Finished (Report (Inr \<lparr>rep_results = results @ fst (batch_loop en h m uploads w),
                              rep_total = k,
                              rep_model = model_value m,
                              rep_status = ''completed''\<rparr>)),
      snd (batch_loop en h m uploads w))"
proof (induction uploads arbitrary: n results w)
  case Nil
  show ?case
    by (simp add: batch_suspend_def run_alone_Finished)
next
  case (Cons f fs)
  show ?case
  proof (cases "is_wav f")
    case False
    have "batch_suspend h m k results (f # fs) =
        batch_suspend h m k (results @ [validation_entry f]) fs"
      using False by (simp add: batch_suspend_def)
    moreover from Cons.prems have "length fs \<le> n"
      by simp
    ultimately show ?thesis
      using False by (simp add: Cons.IH batch_item_invalid split_beta)
  next
    case True
    from Cons.prems obtain n1 where n: "n = Suc n1" and short: "length fs \<le> n1"
      by (cases n) auto
    have waits: "batch_suspend h m k results (f # fs) = Batch_Reading h m k results f fs"
      using True by (simp add: batch_suspend_def)
    show ?thesis
      unfolding waits n using short
      by (simp add: Cons.IH split_beta)
  qed
qed

lemma batch_alone:
  "length uploads < n \<Longrightarrow>
   run_alone en n (Batch_Start uploads m) w =
     (Finished (Report (fst (transcribe_batch en uploads m w))),
      snd (transcribe_batch en uploads m w))"
proof -
  assume "length uploads < n"
  then obtain n1 where n: "n = Suc n1" and short: "length uploads \<le> n1"
    by (cases n) auto
  show ?thesis
    unfolding n using short
    by (auto simp: transcribe_batch_def batch_suspend_alone run_alone_Finished
          split: prod.splits sum.splits)
qed

end
